theory Spec2Isabelle
  imports Complex_Main
begin

section \<open>Strings of the scripts\<close>

text \<open>
  A JavaScript string is modelled by the UTF-8 bytes of its text, as they stand in the
  source files. Concatenation of well-formed strings is concatenation of their bytes.
  The constants below are the literal pieces of \<^verbatim>\<open>src/main.js\<close> (lines 11, 17, 19, 22,
  31 to 34, 36) and of \<^verbatim>\<open>src/sup/main.js\<close> (lines 29, 30).
\<close>

definition rocket :: string where
  "rocket = [CHR 0xF0, CHR 0x9F, CHR 0x9A, CHR 0x80]"

definition check_mark :: string where
  "check_mark = [CHR 0xE2, CHR 0x9C, CHR 0x85]"

definition cross_mark :: string where
  "cross_mark = [CHR 0xE2, CHR 0x9D, CHR 0x8C]"

definition warning_sign :: string where
  "warning_sign = [CHR 0xE2, CHR 0x9A, CHR 0xA0, CHR 0xEF, CHR 0xB8, CHR 0x8F]"

definition thermometer :: string where
  "thermometer = [CHR 0xF0, CHR 0x9F, CHR 0x8C, CHR 0xA1, CHR 0xEF, CHR 0xB8, CHR 0x8F]"

definition test_tube :: string where
  "test_tube = [CHR 0xF0, CHR 0x9F, CHR 0xA7, CHR 0xAA]"

definition rescue_helmet :: string where
  "rescue_helmet = [CHR 0xE2, CHR 0x9B, CHR 0x91, CHR 0xEF, CHR 0xB8, CHR 0x8F]"

definition degree_sign :: string where
  "degree_sign = [CHR 0xC2, CHR 0xB0]"

definition busy_text :: string where
  "busy_text = rocket @ '' Running AI Detection...''"

definition complete_prefix :: string where
  "complete_prefix = check_mark @ '' Detection Complete! Helmet Violations: ''"

definition error_prefix :: string where
  "error_prefix = cross_mark @ '' Error: ''"

definition cannot_connect_text :: string where
  "cannot_connect_text = warning_sign @ '' Cannot connect to backend.''"

definition no_live_data_text :: string where
  "no_live_data_text = ''No live data available.''"

definition celsius_suffix :: string where
  "celsius_suffix = '' '' @ degree_sign @ ''C''"

definition ppm_suffix :: string where
  "ppm_suffix = '' ppm''"

definition run_ai_url :: string where
  "run_ai_url = ''http://127.0.0.1:5001/run_ai''"

definition get_data_url :: string where
  "get_data_url = ''http://127.0.0.1:5001/get_data''"

section \<open>JavaScript values\<close>

text \<open>
  The values \<^verbatim>\<open>res.json()\<close> can resolve with, together with \<^verbatim>\<open>undefined\<close>, which a
  property read yields for a missing property. The number type is the parameter \<open>'n\<close>;
  the conversion of a number to a string (Number::toString) is passed to the functions
  below as \<open>ns\<close>. An object is the list of its own properties, the first binding of a key
  being the one that counts.
\<close>

datatype 'n jsval =
    JUndefined
  | JNull
  | JBool bool
  | JNum 'n
  | JStr string
  | JArr "'n jsval list"
  | JObj "(string \<times> 'n jsval) list"

datatype js_error = TypeError | SyntaxError | FetchFailed

text \<open>
  \<^verbatim>\<open>${v}\<close> in a template literal is ToString of \<open>v\<close>. An array is joined with commas,
  \<^verbatim>\<open>null\<close> and \<^verbatim>\<open>undefined\<close> elements giving the empty string. A plain object gives
  \<^verbatim>\<open>[object Object]\<close> through \<^verbatim>\<open>Object.prototype.toString\<close>; an object with an own
  property \<^verbatim>\<open>toString\<close> (never callable in parsed JSON) has no primitive value and the
  conversion throws a TypeError.
\<close>

fun ToString :: "('n \<Rightarrow> string) \<Rightarrow> 'n jsval \<Rightarrow> js_error + string"
  and array_join :: "('n \<Rightarrow> string) \<Rightarrow> 'n jsval list \<Rightarrow> js_error + string"
  and join_element :: "('n \<Rightarrow> string) \<Rightarrow> 'n jsval \<Rightarrow> js_error + string"
where
  "ToString ns JUndefined = Inr ''undefined''"
| "ToString ns JNull = Inr ''null''"
| "ToString ns (JBool b) = Inr (if b then ''true'' else ''false'')"
| "ToString ns (JNum n) = Inr (ns n)"
| "ToString ns (JStr s) = Inr s"
| "ToString ns (JArr xs) = array_join ns xs"
| "ToString ns (JObj kvs) =
     (if ''toString'' \<in> set (map fst kvs) then Inl TypeError else Inr ''[object Object]'')"
| "array_join ns [] = Inr []"
| "array_join ns [x] = join_element ns x"
| "array_join ns (x # y # ys) =
     (case join_element ns x of
        Inl e \<Rightarrow> Inl e
      | Inr s \<Rightarrow> (case array_join ns (y # ys) of
                   Inl e \<Rightarrow> Inl e
                 | Inr t \<Rightarrow> Inr (s @ '','' @ t)))"
| "join_element ns JUndefined = Inr []"
| "join_element ns JNull = Inr []"
| "join_element ns (JBool b) = ToString ns (JBool b)"
| "join_element ns (JNum n) = ToString ns (JNum n)"
| "join_element ns (JStr s) = ToString ns (JStr s)"
| "join_element ns (JArr xs) = ToString ns (JArr xs)"
| "join_element ns (JObj kvs) = ToString ns (JObj kvs)"

text \<open>
  \<^verbatim>\<open>v.k\<close> for the keys the scripts read: \<^verbatim>\<open>status\<close>, \<^verbatim>\<open>data\<close>, \<^verbatim>\<open>message\<close>,
  \<^verbatim>\<open>helmet_violations\<close>, \<^verbatim>\<open>temperature\<close> and \<^verbatim>\<open>gas_level\<close>. None of them is a property
  of a built-in prototype, so on an object without the key, and on a number, a string, a
  boolean or an array, the read gives \<^verbatim>\<open>undefined\<close>. On \<^verbatim>\<open>null\<close> and \<^verbatim>\<open>undefined\<close>
  it throws a TypeError.
\<close>

fun get_prop :: "'n jsval \<Rightarrow> string \<Rightarrow> js_error + 'n jsval" where
  "get_prop JUndefined k = Inl TypeError"
| "get_prop JNull k = Inl TypeError"
| "get_prop (JObj kvs) k = (case map_of kvs k of None \<Rightarrow> Inr JUndefined | Some v \<Rightarrow> Inr v)"
| "get_prop v k = Inr JUndefined"

section \<open>The document\<close>

text \<open>
  The document maps the identifier of each element it holds to the element's text
  content. \<^verbatim>\<open>getElementById\<close> returns the element (named by its identifier) or
  \<^verbatim>\<open>null\<close>, here \<open>None\<close>. Assigning \<^verbatim>\<open>textContent\<close> through \<^verbatim>\<open>null\<close> throws a TypeError.
\<close>

type_synonym document = "string \<rightharpoonup> string"

definition getElementById :: "document \<Rightarrow> string \<Rightarrow> string option" where
  "getElementById d i = (case d i of None \<Rightarrow> None | Some t \<Rightarrow> Some i)"

definition set_textContent :: "string option \<Rightarrow> string \<Rightarrow> document \<Rightarrow> js_error + document" where
  "set_textContent el s d = (case el of None \<Rightarrow> Inl TypeError | Some i \<Rightarrow> Inr (d(i \<mapsto> s)))"

text \<open>The constants of the DOMContentLoaded handler, \<^verbatim>\<open>src/main.js\<close> lines 2 to 7.\<close>

record elements =
  runBtn :: "string option"
  status :: "string option"
  liveData :: "string option"
  tempSpan :: "string option"
  gasSpan :: "string option"
  helmetSpan :: "string option"

definition lookup_elements :: "document \<Rightarrow> elements" where
  "lookup_elements d =
     \<lparr> runBtn = getElementById d ''runAI'',
       status = getElementById d ''aiStatus'',
       liveData = getElementById d ''liveData'',
       tempSpan = getElementById d ''temp'',
       gasSpan = getElementById d ''gas'',
       helmetSpan = getElementById d ''helmet'' \<rparr>"

section \<open>Responses\<close>

text \<open>
  What the two awaits of a handler can give: \<^verbatim>\<open>fetch\<close> rejects, or resolves with a
  response of some HTTP status whose \<^verbatim>\<open>json()\<close> rejects with a SyntaxError or resolves
  with the parsed value. No handler reads the HTTP status.
\<close>

datatype 'n body = NotJSON | JSON "'n jsval"

datatype 'n fetch_outcome = FetchRejected | Responded nat "'n body"

text \<open>How the promise of an async handler settles.\<close>

datatype settled = Fulfilled | RejectedWith js_error

section \<open>The detection trigger, \<^verbatim>\<open>src/main.js\<close> lines 10 to 24\<close>

text \<open>
  The handler runs in two segments. The first, up to the await of \<^verbatim>\<open>fetch\<close>, is line 11:
  it is outside the try block, so a throw there rejects the handler's promise and no
  request is sent.
\<close>

definition runAI_click_sync :: "elements \<Rightarrow> document \<Rightarrow> js_error + document" where
  "runAI_click_sync els d = set_textContent (status els) busy_text d"

text \<open>
  The second segment starts when the request settles. Lines 13 to 20 are the try block;
  the document is written only by its last statement.
\<close>

definition runAI_try :: "('n \<Rightarrow> string) \<Rightarrow> elements \<Rightarrow> 'n fetch_outcome \<Rightarrow> document \<Rightarrow> js_error + document" where
  "runAI_try ns els r d =
     (case r of
        FetchRejected \<Rightarrow> Inl FetchFailed
      | Responded code b \<Rightarrow>
          (case b of
             NotJSON \<Rightarrow> Inl SyntaxError
           | JSON data \<Rightarrow>
               (case get_prop data ''status'' of
                  Inl e \<Rightarrow> Inl e
                | Inr st \<Rightarrow>
                    if st = JStr ''success'' then
                      (case get_prop data ''data'' of
                         Inl e \<Rightarrow> Inl e
                       | Inr inner \<Rightarrow>
                           (case get_prop inner ''helmet_violations'' of
                              Inl e \<Rightarrow> Inl e
                            | Inr violations \<Rightarrow>
                                (case ToString ns violations of
                                   Inl e \<Rightarrow> Inl e
                                 | Inr s \<Rightarrow> set_textContent (status els) (complete_prefix @ s) d)))
                    else
                      (case get_prop data ''message'' of
                         Inl e \<Rightarrow> Inl e
                       | Inr m \<Rightarrow>
                           (case ToString ns m of
                              Inl e \<Rightarrow> Inl e
                            | Inr s \<Rightarrow> set_textContent (status els) (error_prefix @ s) d)))))"

text \<open>Lines 21 to 23: the catch block. A throw inside it rejects the handler's promise.\<close>

definition runAI_click_resume :: "('n \<Rightarrow> string) \<Rightarrow> elements \<Rightarrow> 'n fetch_outcome \<Rightarrow> document \<Rightarrow> settled \<times> document" where
  "runAI_click_resume ns els r d =
     (case runAI_try ns els r d of
        Inr d' \<Rightarrow> (Fulfilled, d')
      | Inl e \<Rightarrow>
          (case set_textContent (status els) cannot_connect_text d of
             Inr d' \<Rightarrow> (Fulfilled, d')
           | Inl e' \<Rightarrow> (RejectedWith e', d)))"

section \<open>The poller, \<^verbatim>\<open>src/main.js\<close> lines 27 to 38\<close>

text \<open>The three template literals of lines 31 to 34, evaluated left to right.\<close>

definition field_text :: "('n \<Rightarrow> string) \<Rightarrow> 'n jsval \<Rightarrow> string \<Rightarrow> js_error + string" where
  "field_text ns data k = (case get_prop data k of Inl e \<Rightarrow> Inl e | Inr v \<Rightarrow> ToString ns v)"

definition live_text :: "('n \<Rightarrow> string) \<Rightarrow> 'n jsval \<Rightarrow> js_error + string" where
  "live_text ns data =
     (case field_text ns data ''temperature'' of
        Inl e \<Rightarrow> Inl e
      | Inr t \<Rightarrow>
          (case field_text ns data ''gas_level'' of
             Inl e \<Rightarrow> Inl e
           | Inr g \<Rightarrow>
               (case field_text ns data ''helmet_violations'' of
                  Inl e \<Rightarrow> Inl e
                | Inr h \<Rightarrow>
                    Inr (thermometer @ '' Temp: '' @ t @ celsius_suffix @ '' | '' @ test_tube
                         @ '' Gas: '' @ g @ ppm_suffix @ '' | '' @ rescue_helmet
                         @ '' Helmet Violations: '' @ h))))"

definition temp_text :: "('n \<Rightarrow> string) \<Rightarrow> 'n jsval \<Rightarrow> js_error + string" where
  "temp_text ns data =
     (case field_text ns data ''temperature'' of Inl e \<Rightarrow> Inl e | Inr t \<Rightarrow> Inr (t @ celsius_suffix))"

definition gas_text :: "('n \<Rightarrow> string) \<Rightarrow> 'n jsval \<Rightarrow> js_error + string" where
  "gas_text ns data =
     (case field_text ns data ''gas_level'' of Inl e \<Rightarrow> Inl e | Inr g \<Rightarrow> Inr (g @ ppm_suffix))"

definition helmet_text :: "('n \<Rightarrow> string) \<Rightarrow> 'n jsval \<Rightarrow> js_error + string" where
  "helmet_text ns data = field_text ns data ''helmet_violations''"

text \<open>
  One statement of the try block: evaluate the text, then assign it. The result keeps
  the document as it is when the statement throws.
\<close>

definition assign_text :: "string option \<Rightarrow> js_error + string \<Rightarrow> document \<Rightarrow> js_error + document" where
  "assign_text el txt d = (case txt of Inl e \<Rightarrow> Inl e | Inr s \<Rightarrow> set_textContent el s d)"

text \<open>
  Lines 29 to 34: the try block. It returns the error thrown, if any, and the document
  as the statements before the throw left it.
\<close>

definition refreshData_try :: "('n \<Rightarrow> string) \<Rightarrow> elements \<Rightarrow> 'n fetch_outcome \<Rightarrow> document \<Rightarrow> js_error option \<times> document" where
  "refreshData_try ns els r d =
     (case r of
        FetchRejected \<Rightarrow> (Some FetchFailed, d)
      | Responded code b \<Rightarrow>
          (case b of
             NotJSON \<Rightarrow> (Some SyntaxError, d)
           | JSON data \<Rightarrow>
               (case assign_text (liveData els) (live_text ns data) d of
                  Inl e \<Rightarrow> (Some e, d)
                | Inr d1 \<Rightarrow>
                    (case assign_text (tempSpan els) (temp_text ns data) d1 of
                       Inl e \<Rightarrow> (Some e, d1)
                     | Inr d2 \<Rightarrow>
                         (case assign_text (gasSpan els) (gas_text ns data) d2 of
                            Inl e \<Rightarrow> (Some e, d2)
                          | Inr d3 \<Rightarrow>
                              (case assign_text (helmetSpan els) (helmet_text ns data) d3 of
                                 Inl e \<Rightarrow> (Some e, d3)
                               | Inr d4 \<Rightarrow> (None, d4)))))))"

text \<open>
  The whole second segment of \<^verbatim>\<open>refreshData\<close>: the try block, and on a throw the catch
  block of lines 35 to 37. The first segment only sends the request.
\<close>

definition refreshData_resume :: "('n \<Rightarrow> string) \<Rightarrow> elements \<Rightarrow> 'n fetch_outcome \<Rightarrow> document \<Rightarrow> settled \<times> document" where
  "refreshData_resume ns els r d =
     (case refreshData_try ns els r d of
        (None, d') \<Rightarrow> (Fulfilled, d')
      | (Some e, d') \<Rightarrow>
          (case set_textContent (liveData els) no_live_data_text d' of
             Inr d'' \<Rightarrow> (Fulfilled, d'')
           | Inl e' \<Rightarrow> (RejectedWith e', d')))"

section \<open>Numbers as text\<close>

text \<open>
  The decimal digits of a natural number, and Number::toString on an integer (below
  \<open>10 ^ 21\<close> in absolute value, where JavaScript prints all the digits).
\<close>

definition digit :: "nat \<Rightarrow> char" where
  "digit n = ''0123456789'' ! n"

fun dec :: "nat \<Rightarrow> string" where
  "dec n = (if n < 10 then [digit n] else dec (n div 10) @ [digit (n mod 10)])"

declare dec.simps [simp del]

definition int_str :: "int \<Rightarrow> string" where
  "int_str i = (if i < 0 then ''-'' @ dec (nat (- i)) else dec (nat i))"

text \<open>
  \<^verbatim>\<open>x.toFixed(1)\<close>: the integer \<open>n\<close> with \<open>n / 10\<close> nearest to \<open>x\<close>, the larger one on a
  tie, printed with one digit after the point; \<open>x\<close> is the exact value of the number.
\<close>

definition toFixed1 :: "real \<Rightarrow> string" where
  "toFixed1 x =
     (let n = nat \<lfloor>\<bar>x\<bar> * 10 + 1 / 2\<rfloor>
      in (if x < 0 then ''-'' else []) @ dec (n div 10) @ ''.'' @ dec (n mod 10))"

section \<open>The page: timers, requests in flight, listeners\<close>

text \<open>
  A callback of \<^verbatim>\<open>setInterval\<close> and the continuation of a request in flight are closures:
  those of \<^verbatim>\<open>src/main.js\<close> carry the elements looked up when the page loaded.
\<close>

datatype callback = RefreshData elements | DashboardSim

record timer =
  due :: nat
  period :: nat
  callback :: callback

datatype request = GetData elements | RunAI elements

text \<open>
  The page on a clock of milliseconds. \<open>sent\<close> lists the URLs requested, oldest first;
  \<open>inflight\<close> the requests not yet settled; \<open>rejections\<close> the errors of handler promises
  that rejected; \<open>click_listeners\<close> the listeners of the button \<^verbatim>\<open>runAI\<close>. \<open>draws\<close> is the
  sequence \<^verbatim>\<open>Math.random()\<close> returns and \<open>drawn\<close> how many of it are used; \<open>metric_glow\<close>
  holds, for each element of class \<^verbatim>\<open>metric\<close>, the opacity in its box shadow.

  A number of JavaScript is a double; it is modelled by the real number it is. A numeric
  literal denotes, and an addition or a multiplication returns, the double nearest to the
  exact value: \<open>rounding\<close> is that rounding of a real to a double. It is a parameter of the
  page, like the draws; a property of it is assumed only where a statement says so.
\<close>

record page =
  doc :: document
  clock :: nat
  timers :: "timer list"
  inflight :: "request list"
  sent :: "string list"
  rejections :: "js_error list"
  click_listeners :: "elements list"
  draws :: "nat \<Rightarrow> real"
  rounding :: "real \<Rightarrow> real"
  drawn :: nat
  metric_glow :: "real list"

definition fresh_page ::
  "document \<Rightarrow> (nat \<Rightarrow> real) \<Rightarrow> (real \<Rightarrow> real) \<Rightarrow> real list \<Rightarrow> page" where
  "fresh_page d rs fl glow =
     \<lparr> doc = d, clock = 0, timers = [], inflight = [], sent = [], rejections = [],
       click_listeners = [], draws = rs, rounding = fl, drawn = 0, metric_glow = glow \<rparr>"

definition setInterval :: "callback \<Rightarrow> nat \<Rightarrow> page \<Rightarrow> page" where
  "setInterval cb ms p =
     p\<lparr>timers := timers p @ [\<lparr>due = clock p + ms, period = ms, callback = cb\<rparr>]\<rparr>"

text \<open>
  A call of \<^verbatim>\<open>refreshData\<close> runs its first segment: line 29 sends the request and the
  function waits.
\<close>

definition refreshData_call :: "elements \<Rightarrow> page \<Rightarrow> page" where
  "refreshData_call els p =
     p\<lparr>sent := sent p @ [get_data_url], inflight := inflight p @ [GetData els]\<rparr>"

text \<open>The DOMContentLoaded handler of \<^verbatim>\<open>src/main.js\<close>, lines 1 to 42.\<close>

definition main_onload :: "page \<Rightarrow> page" where
  "main_onload p =
     (let els = lookup_elements (doc p);
          p1 = (if runBtn els \<noteq> None then p\<lparr>click_listeners := click_listeners p @ [els]\<rparr> else p);
          p2 = setInterval (RefreshData els) 5000 p1
      in refreshData_call els p2)"

text \<open>
  The callback of \<^verbatim>\<open>src/sup/main.js\<close>, lines 28 to 35. It runs only behind the guard of
  line 27, so the three elements exist. Every product and sum is rounded to a double, the
  product before the sum; \<^verbatim>\<open>Math.floor\<close> and \<^verbatim>\<open>toFixed\<close> take the exact value of the
  double they are given. The literals 70, 20, 33, 2 and 3 are doubles; 0.3 and 0.2 are
  rounded.
\<close>

definition dashboard_sim :: "page \<Rightarrow> page" where
  "dashboard_sim p =
     (let fl = rounding p;
          r1 = draws p (drawn p);
          r2 = draws p (drawn p + 1);
          r3 = draws p (drawn p + 2);
          d1 = (doc p)(''hr'' \<mapsto> int_str \<lfloor>fl (70 + fl (r1 * 20))\<rfloor> @ '' bpm'');
          d2 = d1(''temp'' \<mapsto> toFixed1 (fl (33 + fl (r2 * 2))) @ celsius_suffix);
          d3 = d2(''alerts'' \<mapsto> int_str \<lfloor>fl (r3 * 3)\<rfloor>);
          glow = map (\<lambda>k. fl (fl 0.3 + fl (draws p (drawn p + 3 + k) * fl 0.2)))
                     [0..<length (metric_glow p)]
      in p\<lparr>doc := d3, drawn := drawn p + 3 + length (metric_glow p), metric_glow := glow\<rparr>)"

text \<open>The dashboard section of \<^verbatim>\<open>src/sup/main.js\<close>, lines 24 to 36.\<close>

definition sup_script :: "page \<Rightarrow> page" where
  "sup_script p =
     (let hr = getElementById (doc p) ''hr'';
          temp = getElementById (doc p) ''temp'';
          alerts = getElementById (doc p) ''alerts''
      in if hr \<noteq> None \<and> temp \<noteq> None \<and> alerts \<noteq> None then setInterval DashboardSim 1800 p else p)"

fun run_callback :: "callback \<Rightarrow> page \<Rightarrow> page" where
  "run_callback (RefreshData els) p = refreshData_call els p"
| "run_callback DashboardSim p = dashboard_sim p"

text \<open>
  One millisecond passes: the timers that are due run in the order they were set, and
  each is set again one period later.
\<close>

definition fire_if_due :: "timer \<Rightarrow> page \<Rightarrow> page" where
  "fire_if_due t p = (if due t \<le> clock p then run_callback (callback t) p else p)"

definition rearm :: "nat \<Rightarrow> timer \<Rightarrow> timer" where
  "rearm now t = (if due t \<le> now then t\<lparr>due := due t + period t\<rparr> else t)"

definition tick :: "page \<Rightarrow> page" where
  "tick p =
     (let p1 = p\<lparr>clock := clock p + 1\<rparr>;
          p2 = fold fire_if_due (timers p1) p1
      in p2\<lparr>timers := map (rearm (clock p1)) (timers p2)\<rparr>)"

text \<open>
  A click on the button runs the first segment of every listener; the request goes out
  unless the segment threw.
\<close>

definition click_listener :: "elements \<Rightarrow> page \<Rightarrow> page" where
  "click_listener els p =
     (case runAI_click_sync els (doc p) of
        Inl e \<Rightarrow> p\<lparr>rejections := rejections p @ [e]\<rparr>
      | Inr d \<Rightarrow> p\<lparr>doc := d, sent := sent p @ [run_ai_url], inflight := inflight p @ [RunAI els]\<rparr>)"

definition click :: "page \<Rightarrow> page" where
  "click p = fold click_listener (click_listeners p) p"

text \<open>
  The request at position \<open>i\<close> of those in flight settles with \<open>r\<close>: the handler that waits
  for it runs its second segment.
\<close>

definition finish :: "settled \<times> document \<Rightarrow> page \<Rightarrow> page" where
  "finish res p =
     (case fst res of
        Fulfilled \<Rightarrow> p\<lparr>doc := snd res\<rparr>
      | RejectedWith e \<Rightarrow> p\<lparr>doc := snd res, rejections := rejections p @ [e]\<rparr>)"

definition settle :: "('n \<Rightarrow> string) \<Rightarrow> nat \<Rightarrow> 'n fetch_outcome \<Rightarrow> page \<Rightarrow> page" where
  "settle ns i r p =
     (if i < length (inflight p) then
        (let p1 = p\<lparr>inflight := take i (inflight p) @ drop (Suc i) (inflight p)\<rparr>
         in case inflight p ! i of
              GetData els \<Rightarrow> finish (refreshData_resume ns els r (doc p)) p1
            | RunAI els \<Rightarrow> finish (runAI_click_resume ns els r (doc p)) p1)
      else p)"

text \<open>What happens to the page: time passes, a request settles, the user clicks.\<close>

datatype 'n event = Elapse nat | Settle nat "'n fetch_outcome" | Click

fun step :: "('n \<Rightarrow> string) \<Rightarrow> 'n event \<Rightarrow> page \<Rightarrow> page" where
  "step ns (Elapse n) p = (tick ^^ n) p"
| "step ns (Settle i r) p = settle ns i r p"
| "step ns Click p = click p"

definition run :: "('n \<Rightarrow> string) \<Rightarrow> 'n event list \<Rightarrow> page \<Rightarrow> page" where
  "run ns evs p = fold (step ns) evs p"

fun elapsed :: "'n event list \<Rightarrow> nat" where
  "elapsed [] = 0"
| "elapsed (Elapse n # evs) = n + elapsed evs"
| "elapsed (e # evs) = elapsed evs"

definition polls :: "page \<Rightarrow> nat" where
  "polls p = length (filter (\<lambda>u. u = get_data_url) (sent p))"

section \<open>A page to evaluate on\<close>

definition demo_document :: document where
  "demo_document =
     [''runAI'' \<mapsto> ''Run AI Detection'', ''aiStatus'' \<mapsto> [], ''liveData'' \<mapsto> ''Loading...'',
      ''temp'' \<mapsto> ''--'', ''gas'' \<mapsto> ''--'', ''helmet'' \<mapsto> ''--'',
      ''hr'' \<mapsto> ''--'', ''alerts'' \<mapsto> ''0'']"

text \<open>
  Every draw is 1/2. Then each number the dashboard computes (10 and 80, 1 and 34, 3/2) is
  a double, which rounding leaves as it is: \<open>no_rounding\<close> stands for the rounding on the
  pages evaluated below.
\<close>

definition steady_draws :: "nat \<Rightarrow> real" where
  "steady_draws i = 1 / 2"

definition no_rounding :: "real \<Rightarrow> real" where
  "no_rounding x = x"

definition demo_reading :: "int jsval" where
  "demo_reading =
     JObj [(''temperature'', JNum 36), (''gas_level'', JNum 120), (''helmet_violations'', JNum 2)]"

definition no_status_document :: document where
  "no_status_document = demo_document(''aiStatus'' := None)"

definition no_liveData_document :: document where
  "no_liveData_document = demo_document(''liveData'' := None)"

definition no_gas_document :: document where
  "no_gas_document = demo_document(''gas'' := None)"

section \<open>Invariants of the timers\<close>

text \<open>
  The poller of a page loaded at time \<open>c0\<close> with \<open>n0\<close> polls sent before: its timer is the
  only one that is not the dashboard's, it is due at the next multiple of 5000 ms after
  the load, and one poll was sent at the load and one at each multiple passed.
\<close>

definition poller_inv :: "nat \<Rightarrow> nat \<Rightarrow> elements \<Rightarrow> page \<Rightarrow> bool" where
  "poller_inv c0 n0 els q \<longleftrightarrow>
     filter (\<lambda>t. callback t \<noteq> DashboardSim) (timers q)
       = [\<lparr>due = c0 + 5000 * ((clock q - c0) div 5000 + 1), period = 5000,
           callback = RefreshData els\<rparr>]
     \<and> polls q = n0 + 1 + (clock q - c0) div 5000
     \<and> c0 \<le> clock q"

text \<open>A timer of the dashboard is due within the next \<open>n\<close> milliseconds.\<close>

definition sim_armed :: "nat \<Rightarrow> page \<Rightarrow> bool" where
  "sim_armed n q \<longleftrightarrow>
     (\<exists>t \<in> set (timers q). callback t = DashboardSim \<and> period t = 1800
        \<and> clock q < due t \<and> due t \<le> clock q + n)"

text \<open>The element \<^verbatim>\<open>temp\<close> shows a value the dashboard drew.\<close>

definition sim_temp :: "page \<Rightarrow> bool" where
  "sim_temp q \<longleftrightarrow>
     (\<exists>j. doc q ''temp''
            = Some (toFixed1 (rounding q (33 + rounding q (draws q j * 2))) @ celsius_suffix))"

section \<open>Evaluation lemmas\<close>

lemma dec_small: "n < 10 \<Longrightarrow> dec n = [digit n]"
  by (subst dec.simps) simp

lemma dec_big: "10 \<le> n \<Longrightarrow> dec n = dec (n div 10) @ [digit (n mod 10)]"
  by (subst dec.simps) simp

lemmas dec_eval = dec_small dec_big digit_def int_str_def

lemma getElementById_present: "d i \<noteq> None \<Longrightarrow> getElementById d i = Some i"
  by (auto simp: getElementById_def)

lemmas handler_defs =
  refreshData_resume_def refreshData_try_def assign_text_def live_text_def temp_text_def
  gas_text_def helmet_text_def field_text_def set_textContent_def
  runAI_click_resume_def runAI_try_def runAI_click_sync_def

lemmas text_defs =
  busy_text_def complete_prefix_def error_prefix_def cannot_connect_text_def
  no_live_data_text_def celsius_suffix_def ppm_suffix_def rocket_def check_mark_def
  cross_mark_def warning_sign_def thermometer_def test_tube_def rescue_helmet_def degree_sign_def

lemma demo_lookup:
  "lookup_elements demo_document =
     \<lparr>runBtn = Some ''runAI'', status = Some ''aiStatus'', liveData = Some ''liveData'',
      tempSpan = Some ''temp'', gasSpan = Some ''gas'', helmetSpan = Some ''helmet''\<rparr>"
  by (simp add: lookup_elements_def getElementById_def demo_document_def)

section \<open>The placeholder on failure\<close>

text \<open>
  Claim C1, as amended. On a page that has the element \<^verbatim>\<open>liveData\<close>: when \<^verbatim>\<open>fetch\<close>
  rejects, when the body is not JSON, and whenever else the try block of \<^verbatim>\<open>refreshData\<close>
  throws, the promise of \<^verbatim>\<open>refreshData\<close> is fulfilled (nothing propagates) and the text
  of \<^verbatim>\<open>liveData\<close> is exactly \<^verbatim>\<open>No live data available.\<close>. The HTTP status plays no part:
  a response of any status is handled as the response of status 200 with the same body.
\<close>

theorem refreshData_failure_placeholder:
  assumes "d0 ''liveData'' \<noteq> None"
    and "r = FetchRejected \<or> r = Responded code NotJSON
         \<or> fst (refreshData_try ns (lookup_elements d0) r d) \<noteq> None"
  shows "fst (refreshData_resume ns (lookup_elements d0) r d) = Fulfilled
       \<and> snd (refreshData_resume ns (lookup_elements d0) r d) ''liveData'' = Some no_live_data_text
       \<and> refreshData_resume ns (lookup_elements d0) (Responded code b) d
           = refreshData_resume ns (lookup_elements d0) (Responded 200 b) d"
proof -
  have "fst (refreshData_try ns (lookup_elements d0) r d) \<noteq> None"
    using assms(2) by (auto simp: refreshData_try_def)
  then obtain e d' where "refreshData_try ns (lookup_elements d0) r d = (Some e, d')"
    by (cases "refreshData_try ns (lookup_elements d0) r d") auto
  then have "fst (refreshData_resume ns (lookup_elements d0) r d) = Fulfilled
       \<and> snd (refreshData_resume ns (lookup_elements d0) r d) ''liveData'' = Some no_live_data_text"
    using assms(1)
    by (simp add: refreshData_resume_def set_textContent_def lookup_elements_def
        getElementById_present)
  moreover have "refreshData_resume ns (lookup_elements d0) (Responded code b) d
           = refreshData_resume ns (lookup_elements d0) (Responded 200 b) d"
    by (simp add: refreshData_resume_def refreshData_try_def)
  ultimately show ?thesis by simp
qed

theorem refreshData_failure_placeholder_witness:
  "demo_document ''liveData'' \<noteq> None
   \<and> fst (refreshData_resume int_str (lookup_elements demo_document) FetchRejected demo_document)
       = Fulfilled
   \<and> snd (refreshData_resume int_str (lookup_elements demo_document) FetchRejected demo_document)
       ''liveData'' = Some ''No live data available.''"
proof -
  have p: "demo_document ''liveData'' \<noteq> None" by (simp add: demo_document_def)
  show ?thesis
    using p refreshData_failure_placeholder [where ?d0.0 = demo_document and r = FetchRejected
        and ns = int_str and d = demo_document]
    by (simp add: no_live_data_text_def)
qed

text \<open>
  Claim C1 as stated fails: a response of status 500 whose body is the JSON object
  \<^verbatim>\<open>{"error": "Internal Server Error"}\<close> is rendered, with \<^verbatim>\<open>undefined\<close> for each field.
\<close>

theorem refreshData_non_200_counterexample:
  "snd (refreshData_resume int_str (lookup_elements demo_document)
          (Responded 500 (JSON (JObj [(''error'', JStr ''Internal Server Error'')]))) demo_document)
       ''liveData''
     = Some (thermometer @ '' Temp: undefined'' @ celsius_suffix @ '' | '' @ test_tube
              @ '' Gas: undefined'' @ ppm_suffix @ '' | '' @ rescue_helmet
              @ '' Helmet Violations: undefined'')
   \<and> snd (refreshData_resume int_str (lookup_elements demo_document)
          (Responded 500 (JSON (JObj [(''error'', JStr ''Internal Server Error'')]))) demo_document)
       ''liveData''
     \<noteq> Some no_live_data_text"
  by (simp add: demo_lookup handler_defs text_defs)

section \<open>The messages of the detection trigger\<close>

text \<open>
  Claim C3. On a page that has the element \<^verbatim>\<open>aiStatus\<close>, when the request of the
  detection trigger settles: a body with \<^verbatim>\<open>status\<close> equal to \<^verbatim>\<open>success\<close> and the number
  \<open>n\<close> at \<^verbatim>\<open>data.helmet_violations\<close> sets the status text to the check mark,
  \<^verbatim>\<open> Detection Complete! Helmet Violations: \<close> and \<open>n\<close> as text; a body with another
  \<^verbatim>\<open>status\<close> and the string \<open>m\<close> at \<^verbatim>\<open>message\<close> sets it to the cross mark, \<^verbatim>\<open> Error: \<close>
  and \<open>m\<close>; a rejected \<^verbatim>\<open>fetch\<close> sets it to the warning sign and
  \<^verbatim>\<open> Cannot connect to backend.\<close>.
\<close>

theorem runAI_outcome_messages:
  assumes "d0 ''aiStatus'' \<noteq> None"
  shows "(map_of kvs ''status'' = Some (JStr ''success'') \<and> map_of kvs ''data'' = Some (JObj inner)
            \<and> map_of inner ''helmet_violations'' = Some (JNum n) \<longrightarrow>
          runAI_click_resume ns (lookup_elements d0) (Responded code (JSON (JObj kvs))) d =
            (Fulfilled, d(''aiStatus'' \<mapsto> complete_prefix @ ns n)))
       \<and> (map_of kvs ''status'' = Some st \<and> st \<noteq> JStr ''success''
            \<and> map_of kvs ''message'' = Some (JStr m) \<longrightarrow>
          runAI_click_resume ns (lookup_elements d0) (Responded code (JSON (JObj kvs))) d =
            (Fulfilled, d(''aiStatus'' \<mapsto> error_prefix @ m)))
       \<and> runAI_click_resume ns (lookup_elements d0) FetchRejected d =
            (Fulfilled, d(''aiStatus'' \<mapsto> cannot_connect_text))"
  using assms by (simp add: handler_defs lookup_elements_def getElementById_present)

theorem runAI_outcome_messages_witness:
  "demo_document ''aiStatus'' \<noteq> None
   \<and> runAI_click_resume int_str (lookup_elements demo_document)
       (Responded 200 (JSON (JObj [(''status'', JStr ''success''),
                                    (''data'', JObj [(''helmet_violations'', JNum 3)])])))
       demo_document
     = (Fulfilled, demo_document(''aiStatus'' \<mapsto> complete_prefix @ ''3''))
   \<and> runAI_click_resume int_str (lookup_elements demo_document)
       (Responded 200 (JSON (JObj [(''status'', JStr ''error''),
                                    (''message'', JStr ''camera offline'')])))
       demo_document
     = (Fulfilled, demo_document(''aiStatus'' \<mapsto> error_prefix @ ''camera offline''))
   \<and> runAI_click_resume int_str (lookup_elements demo_document) FetchRejected demo_document
     = (Fulfilled, demo_document(''aiStatus'' \<mapsto> cannot_connect_text))"
proof -
  have p: "demo_document ''aiStatus'' \<noteq> None" by (simp add: demo_document_def)
  have a: "int_str 3 = ''3''" by (simp add: dec_eval)
  show ?thesis
    using p
      runAI_outcome_messages [where ?d0.0 = demo_document and ns = int_str and code = 200
          and d = demo_document
          and kvs = "[(''status'', JStr ''success''),
                      (''data'', JObj [(''helmet_violations'', JNum 3)])]"
          and inner = "[(''helmet_violations'', JNum 3)]" and n = 3]
      runAI_outcome_messages [where ?d0.0 = demo_document and ns = int_str and code = 200
          and d = demo_document
          and kvs = "[(''status'', JStr ''error''), (''message'', JStr ''camera offline'')]"
          and st = "JStr ''error''" and m = "''camera offline''"]
    by (simp add: a)
qed

text \<open>
  Claim C9. A body with \<^verbatim>\<open>status\<close> equal to \<^verbatim>\<open>success\<close> whose \<^verbatim>\<open>data\<close> is missing or
  \<^verbatim>\<open>null\<close> makes line 16 throw, and the status text becomes the message of a failed
  connection although a response arrived.
\<close>

theorem runAI_success_without_data:
  assumes "d0 ''aiStatus'' \<noteq> None"
    and "map_of kvs ''status'' = Some (JStr ''success'')"
    and "map_of kvs ''data'' = None \<or> map_of kvs ''data'' = Some JNull"
  shows "runAI_click_resume ns (lookup_elements d0) (Responded code (JSON (JObj kvs))) d =
            (Fulfilled, d(''aiStatus'' \<mapsto> cannot_connect_text))"
  using assms by (auto simp add: handler_defs lookup_elements_def getElementById_present)

theorem runAI_success_without_data_witness:
  "demo_document ''aiStatus'' \<noteq> None
   \<and> runAI_click_resume int_str (lookup_elements demo_document)
       (Responded 200 (JSON (JObj [(''status'', JStr ''success'')]))) demo_document
     = (Fulfilled, demo_document(''aiStatus'' \<mapsto> cannot_connect_text))"
proof -
  have p: "demo_document ''aiStatus'' \<noteq> None" by (simp add: demo_document_def)
  show ?thesis
    using p runAI_success_without_data [where ?d0.0 = demo_document and ns = int_str
        and code = 200 and d = demo_document and kvs = "[(''status'', JStr ''success'')]"]
    by simp
qed

section \<open>Rendering a reading\<close>

text \<open>
  Claim C5. On a page that has the four display elements, a response whose body is an
  object with numbers \<open>t\<close>, \<open>g\<close> and \<open>h\<close> at \<^verbatim>\<open>temperature\<close>, \<^verbatim>\<open>gas_level\<close> and
  \<^verbatim>\<open>helmet_violations\<close> is rendered: \<^verbatim>\<open>temp\<close> shows \<open>t\<close> followed by a space, the degree
  sign and \<^verbatim>\<open>C\<close>; \<^verbatim>\<open>gas\<close> shows \<open>g\<close> followed by \<^verbatim>\<open> ppm\<close>; \<^verbatim>\<open>helmet\<close> shows \<open>h\<close> alone;
  \<^verbatim>\<open>liveData\<close> shows the three in one line.
\<close>

theorem refreshData_renders_reading:
  assumes "d0 ''liveData'' \<noteq> None" and "d0 ''temp'' \<noteq> None"
    and "d0 ''gas'' \<noteq> None" and "d0 ''helmet'' \<noteq> None"
    and "map_of kvs ''temperature'' = Some (JNum t)"
    and "map_of kvs ''gas_level'' = Some (JNum g)"
    and "map_of kvs ''helmet_violations'' = Some (JNum h)"
  shows "refreshData_resume ns (lookup_elements d0) (Responded code (JSON (JObj kvs))) d =
     (Fulfilled,
      d(''liveData'' \<mapsto> thermometer @ '' Temp: '' @ ns t @ celsius_suffix @ '' | '' @ test_tube
                         @ '' Gas: '' @ ns g @ ppm_suffix @ '' | '' @ rescue_helmet
                         @ '' Helmet Violations: '' @ ns h,
        ''temp'' \<mapsto> ns t @ celsius_suffix,
        ''gas'' \<mapsto> ns g @ ppm_suffix,
        ''helmet'' \<mapsto> ns h))"
  using assms
  by (simp add: handler_defs lookup_elements_def getElementById_present)

theorem refreshData_renders_reading_witness:
  "demo_document ''liveData'' \<noteq> None \<and> demo_document ''temp'' \<noteq> None
   \<and> demo_document ''gas'' \<noteq> None \<and> demo_document ''helmet'' \<noteq> None
   \<and> refreshData_resume int_str (lookup_elements demo_document)
       (Responded 200 (JSON (JObj [(''temperature'', JNum 36), (''gas_level'', JNum 120),
                                    (''helmet_violations'', JNum 2)])))
       demo_document
     = (Fulfilled,
        demo_document(
          ''liveData'' \<mapsto> thermometer @ '' Temp: 36'' @ celsius_suffix @ '' | '' @ test_tube
                           @ '' Gas: 120'' @ ppm_suffix @ '' | '' @ rescue_helmet
                           @ '' Helmet Violations: 2'',
          ''temp'' \<mapsto> ''36'' @ celsius_suffix,
          ''gas'' \<mapsto> ''120 ppm'',
          ''helmet'' \<mapsto> ''2''))"
proof -
  have p: "demo_document ''liveData'' \<noteq> None" "demo_document ''temp'' \<noteq> None"
    "demo_document ''gas'' \<noteq> None" "demo_document ''helmet'' \<noteq> None"
    by (simp_all add: demo_document_def)
  have a: "int_str 36 = ''36''" "int_str 120 = ''120''" "int_str 2 = ''2''"
    by (simp_all add: dec_eval)
  show ?thesis
    using p refreshData_renders_reading [OF p, where ns = int_str and code = 200
        and d = demo_document and t = 36 and g = 120 and h = 2
        and kvs = "[(''temperature'', JNum 36), (''gas_level'', JNum 120),
                    (''helmet_violations'', JNum 2)]"]
    by (simp add: a ppm_suffix_def)
qed

section \<open>The effect of a poll does not depend on the document\<close>

lemma set_textContent_cases:
  "(\<forall>d. set_textContent el s d = Inl TypeError)
     \<or> (\<exists>m. \<forall>d. set_textContent el s d = Inr (d ++ m))"
proof (cases el)
  case None
  then show ?thesis by (simp add: set_textContent_def)
next
  case (Some i)
  then have "\<forall>d. set_textContent el s d = Inr (d ++ [i \<mapsto> s])"
    by (simp add: set_textContent_def)
  then show ?thesis by blast
qed

lemma assign_text_cases:
  "(\<exists>e. \<forall>d. assign_text el tx d = Inl e) \<or> (\<exists>m. \<forall>d. assign_text el tx d = Inr (d ++ m))"
proof (cases tx)
  case (Inl e)
  then show ?thesis by (simp add: assign_text_def)
next
  case (Inr s)
  then have "assign_text el tx d = set_textContent el s d" for d
    by (simp add: assign_text_def)
  with set_textContent_cases [of el s] show ?thesis by auto
qed

lemma refreshData_try_uniform:
  "\<exists>e m. \<forall>d. refreshData_try ns els r d = (e, d ++ m)"
proof (cases r)
  case FetchRejected
  then have "\<forall>d. refreshData_try ns els r d = (Some FetchFailed, d ++ Map.empty)"
    by (simp add: refreshData_try_def)
  then show ?thesis by blast
next
  case (Responded code b)
  show ?thesis
  proof (cases b)
    case NotJSON
    with Responded have "\<forall>d. refreshData_try ns els r d = (Some SyntaxError, d ++ Map.empty)"
      by (simp add: refreshData_try_def)
    then show ?thesis by blast
  next
    case (JSON data)
    note r = Responded JSON
    consider
      (f1) e where "\<forall>d. assign_text (liveData els) (live_text ns data) d = Inl e"
    | (s1) m1 where "\<forall>d. assign_text (liveData els) (live_text ns data) d = Inr (d ++ m1)"
      using assign_text_cases by blast
    then show ?thesis
    proof cases
      case f1
      then have "\<forall>d. refreshData_try ns els r d = (Some e, d ++ Map.empty)"
        by (simp add: refreshData_try_def r)
      then show ?thesis by blast
    next
      case s1
      consider
        (f2) e where "\<forall>d. assign_text (tempSpan els) (temp_text ns data) d = Inl e"
      | (s2) m2 where "\<forall>d. assign_text (tempSpan els) (temp_text ns data) d = Inr (d ++ m2)"
        using assign_text_cases by blast
      then show ?thesis
      proof cases
        case f2
        with s1 have "\<forall>d. refreshData_try ns els r d = (Some e, d ++ m1)"
          by (simp add: refreshData_try_def r)
        then show ?thesis by blast
      next
        case s2
        consider
          (f3) e where "\<forall>d. assign_text (gasSpan els) (gas_text ns data) d = Inl e"
        | (s3) m3 where "\<forall>d. assign_text (gasSpan els) (gas_text ns data) d = Inr (d ++ m3)"
          using assign_text_cases by blast
        then show ?thesis
        proof cases
          case f3
          with s1 s2 have "\<forall>d. refreshData_try ns els r d = (Some e, d ++ (m1 ++ m2))"
            by (simp add: refreshData_try_def r)
          then show ?thesis by blast
        next
          case s3
          consider
            (f4) e where "\<forall>d. assign_text (helmetSpan els) (helmet_text ns data) d = Inl e"
          | (s4) m4 where
              "\<forall>d. assign_text (helmetSpan els) (helmet_text ns data) d = Inr (d ++ m4)"
            using assign_text_cases by blast
          then show ?thesis
          proof cases
            case f4
            with s1 s2 s3
            have "\<forall>d. refreshData_try ns els r d = (Some e, d ++ (m1 ++ m2 ++ m3))"
              by (simp add: refreshData_try_def r)
            then show ?thesis by blast
          next
            case s4
            with s1 s2 s3
            have "\<forall>d. refreshData_try ns els r d = (None, d ++ (m1 ++ m2 ++ m3 ++ m4))"
              by (simp add: refreshData_try_def r)
            then show ?thesis by blast
          qed
        qed
      qed
    qed
  qed
qed

lemma refreshData_resume_uniform:
  "\<exists>s m. \<forall>d. refreshData_resume ns els r d = (s, d ++ m)"
proof -
  obtain e m where t: "\<forall>d. refreshData_try ns els r d = (e, d ++ m)"
    using refreshData_try_uniform by blast
  show ?thesis
  proof (cases e)
    case None
    with t have "\<forall>d. refreshData_resume ns els r d = (Fulfilled, d ++ m)"
      by (simp add: refreshData_resume_def)
    then show ?thesis by blast
  next
    case (Some err)
    from set_textContent_cases [of "liveData els" no_live_data_text] show ?thesis
    proof (elim disjE exE)
      assume "\<forall>d. set_textContent (liveData els) no_live_data_text d = Inl TypeError"
      with t Some have "\<forall>d. refreshData_resume ns els r d = (RejectedWith TypeError, d ++ m)"
        by (simp add: refreshData_resume_def)
      then show ?thesis by blast
    next
      fix m'
      assume "\<forall>d. set_textContent (liveData els) no_live_data_text d = Inr (d ++ m')"
      with t Some have "\<forall>d. refreshData_resume ns els r d = (Fulfilled, d ++ (m ++ m'))"
        by (simp add: refreshData_resume_def)
      then show ?thesis by blast
    qed
  qed
qed

text \<open>
  Claim C10. The second segment of \<^verbatim>\<open>refreshData\<close> is a function of the response and
  the document, and rendering the same response again changes nothing: the promise
  settles the same way and every element shows the same text as after the first time.
\<close>

theorem refreshData_idempotent:
  "refreshData_resume ns els r (snd (refreshData_resume ns els r d))
     = refreshData_resume ns els r d"
proof -
  obtain s m where u: "\<forall>d. refreshData_resume ns els r d = (s, d ++ m)"
    using refreshData_resume_uniform by blast
  have "(d ++ m) ++ m = d ++ m"
    by (rule ext) (simp add: map_add_def split: option.splits)
  with u show ?thesis by simp
qed

theorem refreshData_idempotent_witness:
  "refreshData_resume int_str (lookup_elements demo_document) (Responded 200 (JSON demo_reading))
     (snd (refreshData_resume int_str (lookup_elements demo_document)
             (Responded 200 (JSON demo_reading)) demo_document))
   = refreshData_resume int_str (lookup_elements demo_document)
       (Responded 200 (JSON demo_reading)) demo_document"
  by (rule refreshData_idempotent)

section \<open>What a failed poll leaves alone\<close>

lemma field_texts_of_live:
  "live_text ns data = Inr s \<Longrightarrow>
     (\<exists>t. temp_text ns data = Inr t) \<and> (\<exists>g. gas_text ns data = Inr g)
     \<and> (\<exists>h. helmet_text ns data = Inr h)"
  by (auto simp: live_text_def temp_text_def gas_text_def helmet_text_def split: sum.splits)

text \<open>
  Claim C6, as amended. Whether the try block of \<^verbatim>\<open>refreshData\<close> throws does not depend
  on the HTTP status. When it throws, because \<^verbatim>\<open>fetch\<close> rejected, because the body is
  not JSON, or for any other reason on a page that has the secondary elements \<^verbatim>\<open>temp\<close>,
  \<^verbatim>\<open>gas\<close> and \<^verbatim>\<open>helmet\<close>, then the only element written is \<^verbatim>\<open>liveData\<close>: every other
  element keeps the text it had.
\<close>

theorem refreshData_failure_frame:
  assumes "fst (refreshData_try ns (lookup_elements d0) r d) \<noteq> None"
    and "r = FetchRejected \<or> r = Responded code NotJSON
         \<or> (d0 ''temp'' \<noteq> None \<and> d0 ''gas'' \<noteq> None \<and> d0 ''helmet'' \<noteq> None)"
  shows "snd (refreshData_resume ns (lookup_elements d0) r d)
           = (if d0 ''liveData'' = None then d else d(''liveData'' \<mapsto> no_live_data_text))
       \<and> (\<forall>i. i \<noteq> ''liveData'' \<longrightarrow>
             snd (refreshData_resume ns (lookup_elements d0) r d) i = d i)
       \<and> refreshData_try ns (lookup_elements d0) (Responded c b) d
           = refreshData_try ns (lookup_elements d0) (Responded 200 b) d"
proof -
  let ?els = "lookup_elements d0"
  have any_status: "refreshData_try ns ?els (Responded c b) d
           = refreshData_try ns ?els (Responded 200 b) d"
    by (simp add: refreshData_try_def)
  have early: "snd (refreshData_resume ns ?els r d)
           = (if d0 ''liveData'' = None then d else d(''liveData'' \<mapsto> no_live_data_text))"
    if "refreshData_try ns ?els r d = (Some e, d)" for e
    using that
    by (cases "d0 ''liveData''")
      (simp_all add: refreshData_resume_def set_textContent_def lookup_elements_def
        getElementById_def)
  have main: "snd (refreshData_resume ns ?els r d)
           = (if d0 ''liveData'' = None then d else d(''liveData'' \<mapsto> no_live_data_text))"
  proof (cases r)
    case FetchRejected
    then show ?thesis by (intro early [of FetchFailed]) (simp add: refreshData_try_def)
  next
    case (Responded c b)
    show ?thesis
    proof (cases b)
      case NotJSON
      with Responded show ?thesis
        by (intro early [of SyntaxError]) (simp add: refreshData_try_def)
    next
      case (JSON data)
      with Responded assms(2)
      have sec: "d0 ''temp'' \<noteq> None" "d0 ''gas'' \<noteq> None" "d0 ''helmet'' \<noteq> None"
        by auto
      show ?thesis
      proof (cases "assign_text (liveData ?els) (live_text ns data) d")
        case (Inl e)
        with Responded JSON show ?thesis
          by (intro early [of e]) (simp add: refreshData_try_def)
      next
        case (Inr d1)
        then obtain s where s: "live_text ns data = Inr s"
          by (cases "live_text ns data") (auto simp: assign_text_def)
        from field_texts_of_live [OF s] obtain t g h
          where "temp_text ns data = Inr t" "gas_text ns data = Inr g"
            "helmet_text ns data = Inr h"
          by blast
        with Inr sec Responded JSON have "fst (refreshData_try ns ?els r d) = None"
          by (simp add: refreshData_try_def assign_text_def set_textContent_def
              lookup_elements_def getElementById_present)
        with assms(1) show ?thesis by simp
      qed
    qed
  qed
  with any_status show ?thesis by simp
qed

theorem refreshData_failure_frame_witness:
  "fst (refreshData_try int_str (lookup_elements demo_document) (Responded 200 (JSON JNull))
          demo_document) \<noteq> None
   \<and> demo_document ''temp'' \<noteq> None \<and> demo_document ''gas'' \<noteq> None
   \<and> demo_document ''helmet'' \<noteq> None
   \<and> snd (refreshData_resume int_str (lookup_elements demo_document)
            (Responded 200 (JSON JNull)) demo_document)
       = demo_document(''liveData'' \<mapsto> ''No live data available.'')
   \<and> snd (refreshData_resume int_str (lookup_elements demo_document)
            (Responded 200 (JSON JNull)) demo_document) ''temp'' = Some ''--''
   \<and> snd (refreshData_resume int_str (lookup_elements demo_document)
            (Responded 200 (JSON JNull)) demo_document) ''gas'' = Some ''--''
   \<and> snd (refreshData_resume int_str (lookup_elements demo_document)
            (Responded 200 (JSON JNull)) demo_document) ''helmet'' = Some ''--''"
proof -
  have f: "fst (refreshData_try int_str (lookup_elements demo_document)
             (Responded 200 (JSON JNull)) demo_document) \<noteq> None"
    by (simp add: handler_defs demo_lookup)
  have p: "demo_document ''temp'' \<noteq> None \<and> demo_document ''gas'' \<noteq> None
           \<and> demo_document ''helmet'' \<noteq> None"
    by (simp add: demo_document_def)
  have l: "demo_document ''liveData'' \<noteq> None" by (simp add: demo_document_def)
  have v: "demo_document ''temp'' = Some ''--''" "demo_document ''gas'' = Some ''--''"
    "demo_document ''helmet'' = Some ''--''"
    by (simp_all add: demo_document_def)
  from p have h: "Responded 200 (JSON JNull) = FetchRejected
      \<or> Responded 200 (JSON JNull) = Responded 200 NotJSON
      \<or> (demo_document ''temp'' \<noteq> None \<and> demo_document ''gas'' \<noteq> None
           \<and> demo_document ''helmet'' \<noteq> None)"
    by simp
  show ?thesis
    using f p l v refreshData_failure_frame [OF f h]
    by (auto simp add: no_live_data_text_def)
qed

text \<open>
  Claim C6 as stated fails. A response of status 500 whose body is the JSON object
  \<^verbatim>\<open>{"error": "Internal Server Error"}\<close> does not make the try block throw, and the three
  secondary elements, which showed \<^verbatim>\<open>--\<close>, are overwritten with \<^verbatim>\<open>undefined\<close> and their
  suffixes. And on a page without \<^verbatim>\<open>gas\<close>, a valid reading makes the try block throw at
  line 33, after line 32 has written \<^verbatim>\<open>temp\<close>.
\<close>

theorem refreshData_secondary_written_counterexample:
  "fst (refreshData_try int_str (lookup_elements demo_document)
          (Responded 500 (JSON (JObj [(''error'', JStr ''Internal Server Error'')])))
          demo_document) = None
   \<and> demo_document ''temp'' = Some ''--'' \<and> demo_document ''gas'' = Some ''--''
   \<and> demo_document ''helmet'' = Some ''--''
   \<and> snd (refreshData_resume int_str (lookup_elements demo_document)
            (Responded 500 (JSON (JObj [(''error'', JStr ''Internal Server Error'')])))
            demo_document) ''temp'' = Some (''undefined'' @ celsius_suffix)
   \<and> snd (refreshData_resume int_str (lookup_elements demo_document)
            (Responded 500 (JSON (JObj [(''error'', JStr ''Internal Server Error'')])))
            demo_document) ''gas'' = Some ''undefined ppm''
   \<and> snd (refreshData_resume int_str (lookup_elements demo_document)
            (Responded 500 (JSON (JObj [(''error'', JStr ''Internal Server Error'')])))
            demo_document) ''helmet'' = Some ''undefined''
   \<and> fst (refreshData_try int_str (lookup_elements no_gas_document)
            (Responded 200 (JSON demo_reading)) no_gas_document) = Some TypeError
   \<and> no_gas_document ''temp'' = Some ''--''
   \<and> snd (refreshData_resume int_str (lookup_elements no_gas_document)
            (Responded 200 (JSON demo_reading)) no_gas_document) ''temp''
       = Some (''36'' @ celsius_suffix)"
proof -
  have c: "lookup_elements no_gas_document =
     \<lparr>runBtn = Some ''runAI'', status = Some ''aiStatus'', liveData = Some ''liveData'',
      tempSpan = Some ''temp'', gasSpan = None, helmetSpan = Some ''helmet''\<rparr>"
    by (simp add: lookup_elements_def getElementById_def no_gas_document_def
        demo_document_def)
  have n: "int_str 36 = ''36''" "int_str 120 = ''120''" "int_str 2 = ''2''"
    by (simp_all add: dec_eval)
  have 1: "fst (refreshData_try int_str (lookup_elements demo_document)
          (Responded 500 (JSON (JObj [(''error'', JStr ''Internal Server Error'')])))
          demo_document) = None"
    by (simp add: demo_lookup handler_defs)
  have 2: "demo_document ''temp'' = Some ''--''" "demo_document ''gas'' = Some ''--''"
    "demo_document ''helmet'' = Some ''--''" "no_gas_document ''temp'' = Some ''--''"
    by (simp_all add: demo_document_def no_gas_document_def)
  have 3: "snd (refreshData_resume int_str (lookup_elements demo_document)
            (Responded 500 (JSON (JObj [(''error'', JStr ''Internal Server Error'')])))
            demo_document)
       = demo_document(
          ''liveData'' \<mapsto> thermometer @ '' Temp: undefined'' @ celsius_suffix @ '' | ''
                           @ test_tube @ '' Gas: undefined'' @ ppm_suffix @ '' | ''
                           @ rescue_helmet @ '' Helmet Violations: undefined'',
          ''temp'' \<mapsto> ''undefined'' @ celsius_suffix,
          ''gas'' \<mapsto> ''undefined ppm'',
          ''helmet'' \<mapsto> ''undefined'')"
    by (simp add: demo_lookup handler_defs ppm_suffix_def)
  have 4: "fst (refreshData_try int_str (lookup_elements no_gas_document)
            (Responded 200 (JSON demo_reading)) no_gas_document) = Some TypeError"
    by (simp add: c handler_defs demo_reading_def n)
  have 5: "snd (refreshData_resume int_str (lookup_elements no_gas_document)
            (Responded 200 (JSON demo_reading)) no_gas_document) ''temp''
       = Some (''36'' @ celsius_suffix)"
    by (simp add: c handler_defs demo_reading_def n)
  from 1 2 4 5 show ?thesis by (simp add: 3)
qed

section \<open>Elements that are absent\<close>

text \<open>
  Claim C2 fails on the code. Only the button \<^verbatim>\<open>runAI\<close> is guarded (line 9). On a page
  with the button and without \<^verbatim>\<open>aiStatus\<close>, a click throws a TypeError at line 11,
  outside the try block: the promise of the handler rejects and no request is sent. On a
  page without \<^verbatim>\<open>liveData\<close>, the catch block of \<^verbatim>\<open>refreshData\<close> throws at line 36 and
  the promise rejects, whatever the response. On a page without \<^verbatim>\<open>gas\<close>, a valid
  reading ends with \<^verbatim>\<open>temp\<close> updated and \<^verbatim>\<open>liveData\<close> showing the placeholder.
\<close>

theorem absent_element_throws:
  "runAI_click_sync (lookup_elements no_status_document) no_status_document = Inl TypeError
   \<and> rejections (click (main_onload (fresh_page no_status_document steady_draws no_rounding [])))
       = [TypeError]
   \<and> sent (click (main_onload (fresh_page no_status_document steady_draws no_rounding [])))
       = [get_data_url]
   \<and> refreshData_resume int_str (lookup_elements no_liveData_document) FetchRejected
         no_liveData_document
       = (RejectedWith TypeError, no_liveData_document)
   \<and> refreshData_resume int_str (lookup_elements no_liveData_document)
         (Responded 200 (JSON demo_reading)) no_liveData_document
       = (RejectedWith TypeError, no_liveData_document)
   \<and> refreshData_resume int_str (lookup_elements no_gas_document)
         (Responded 200 (JSON demo_reading)) no_gas_document
       = (Fulfilled, no_gas_document(''temp'' \<mapsto> ''36'' @ celsius_suffix,
                                      ''liveData'' \<mapsto> no_live_data_text))"
proof -
  have a: "lookup_elements no_status_document =
     \<lparr>runBtn = Some ''runAI'', status = None, liveData = Some ''liveData'',
      tempSpan = Some ''temp'', gasSpan = Some ''gas'', helmetSpan = Some ''helmet''\<rparr>"
    by (simp add: lookup_elements_def getElementById_def no_status_document_def
        demo_document_def)
  have b: "lookup_elements no_liveData_document =
     \<lparr>runBtn = Some ''runAI'', status = Some ''aiStatus'', liveData = None,
      tempSpan = Some ''temp'', gasSpan = Some ''gas'', helmetSpan = Some ''helmet''\<rparr>"
    by (simp add: lookup_elements_def getElementById_def no_liveData_document_def
        demo_document_def)
  have c: "lookup_elements no_gas_document =
     \<lparr>runBtn = Some ''runAI'', status = Some ''aiStatus'', liveData = Some ''liveData'',
      tempSpan = Some ''temp'', gasSpan = None, helmetSpan = Some ''helmet''\<rparr>"
    by (simp add: lookup_elements_def getElementById_def no_gas_document_def
        demo_document_def)
  have n: "int_str 36 = ''36''" "int_str 120 = ''120''" "int_str 2 = ''2''"
    by (simp_all add: dec_eval)
  have 1: "runAI_click_sync (lookup_elements no_status_document) no_status_document
             = Inl TypeError"
    by (simp add: a runAI_click_sync_def set_textContent_def)
  have 2: "rejections (click (main_onload (fresh_page no_status_document steady_draws no_rounding [])))
             = [TypeError]"
    by (simp add: click_def click_listener_def main_onload_def fresh_page_def Let_def
        setInterval_def refreshData_call_def a runAI_click_sync_def set_textContent_def)
  have 3: "sent (click (main_onload (fresh_page no_status_document steady_draws no_rounding [])))
             = [get_data_url]"
    by (simp add: click_def click_listener_def main_onload_def fresh_page_def Let_def
        setInterval_def refreshData_call_def a runAI_click_sync_def set_textContent_def)
  have 4: "refreshData_resume int_str (lookup_elements no_liveData_document) FetchRejected
         no_liveData_document = (RejectedWith TypeError, no_liveData_document)"
    by (simp add: b refreshData_resume_def refreshData_try_def set_textContent_def)
  have 5: "refreshData_resume int_str (lookup_elements no_liveData_document)
         (Responded 200 (JSON demo_reading)) no_liveData_document
       = (RejectedWith TypeError, no_liveData_document)"
    by (simp add: b handler_defs demo_reading_def n)
  have 6: "refreshData_resume int_str (lookup_elements no_gas_document)
         (Responded 200 (JSON demo_reading)) no_gas_document
       = (Fulfilled, no_gas_document(''temp'' \<mapsto> ''36'' @ celsius_suffix,
                                      ''liveData'' \<mapsto> no_live_data_text))"
    by (simp add: c handler_defs demo_reading_def n fun_upd_twist)
  from 1 2 3 4 5 6 show ?thesis by simp
qed

section \<open>Projections of the page operations\<close>

lemma refreshData_call_proj [simp]:
  "doc (refreshData_call els p) = doc p"
  "clock (refreshData_call els p) = clock p"
  "timers (refreshData_call els p) = timers p"
  "draws (refreshData_call els p) = draws p"
  "rounding (refreshData_call els p) = rounding p"
  "click_listeners (refreshData_call els p) = click_listeners p"
  "sent (refreshData_call els p) = sent p @ [get_data_url]"
  "inflight (refreshData_call els p) = inflight p @ [GetData els]"
  "polls (refreshData_call els p) = polls p + 1"
  by (simp_all add: refreshData_call_def polls_def)

lemma dashboard_sim_proj [simp]:
  "clock (dashboard_sim p) = clock p"
  "timers (dashboard_sim p) = timers p"
  "draws (dashboard_sim p) = draws p"
  "rounding (dashboard_sim p) = rounding p"
  "click_listeners (dashboard_sim p) = click_listeners p"
  "sent (dashboard_sim p) = sent p"
  "inflight (dashboard_sim p) = inflight p"
  "polls (dashboard_sim p) = polls p"
  by (simp_all add: dashboard_sim_def polls_def Let_def)

lemma dashboard_sim_doc:
  "doc (dashboard_sim p) =
     (doc p)(''hr'' \<mapsto>
               int_str \<lfloor>rounding p (70 + rounding p (draws p (drawn p) * 20))\<rfloor> @ '' bpm'',
             ''temp'' \<mapsto>
               toFixed1 (rounding p (33 + rounding p (draws p (drawn p + 1) * 2)))
                 @ celsius_suffix,
             ''alerts'' \<mapsto> int_str \<lfloor>rounding p (draws p (drawn p + 2) * 3)\<rfloor>)"
  by (simp add: dashboard_sim_def Let_def)

lemma fire_if_due_proj [simp]:
  "clock (fire_if_due t p) = clock p"
  "timers (fire_if_due t p) = timers p"
  "draws (fire_if_due t p) = draws p"
  "rounding (fire_if_due t p) = rounding p"
  "click_listeners (fire_if_due t p) = click_listeners p"
  by (cases "callback t"; simp add: fire_if_due_def)+

lemma fire_if_due_polls:
  "polls (fire_if_due t p) = polls p + (if due t \<le> clock p \<and> callback t \<noteq> DashboardSim then 1 else 0)"
  by (cases "callback t") (simp_all add: fire_if_due_def)

lemma fire_if_due_inflight: "\<exists>xs. inflight (fire_if_due t p) = inflight p @ xs"
  by (cases "callback t") (simp_all add: fire_if_due_def)

lemma fire_if_due_doc_frame:
  "i \<noteq> ''hr'' \<Longrightarrow> i \<noteq> ''temp'' \<Longrightarrow> i \<noteq> ''alerts'' \<Longrightarrow> doc (fire_if_due t p) i = doc p i"
  by (cases "callback t") (simp_all add: fire_if_due_def dashboard_sim_doc)

lemma fold_fire_proj [simp]:
  "clock (fold fire_if_due ts p) = clock p"
  "timers (fold fire_if_due ts p) = timers p"
  "draws (fold fire_if_due ts p) = draws p"
  "rounding (fold fire_if_due ts p) = rounding p"
  "click_listeners (fold fire_if_due ts p) = click_listeners p"
  by (induction ts arbitrary: p; simp)+

lemma fold_fire_polls:
  "polls (fold fire_if_due ts p)
     = polls p + length (filter (\<lambda>t. due t \<le> clock p \<and> callback t \<noteq> DashboardSim) ts)"
  by (induction ts arbitrary: p) (simp_all add: fire_if_due_polls)

lemma fold_fire_inflight: "\<exists>xs. inflight (fold fire_if_due ts p) = inflight p @ xs"
proof (induction ts arbitrary: p)
  case Nil
  then show ?case by simp
next
  case (Cons t ts)
  obtain xs where "inflight (fire_if_due t p) = inflight p @ xs"
    using fire_if_due_inflight by blast
  moreover obtain ys where "inflight (fold fire_if_due ts (fire_if_due t p)) = inflight (fire_if_due t p) @ ys"
    using Cons.IH by blast
  ultimately show ?case by simp
qed

lemma fold_fire_doc_frame:
  "i \<noteq> ''hr'' \<Longrightarrow> i \<noteq> ''temp'' \<Longrightarrow> i \<noteq> ''alerts'' \<Longrightarrow> doc (fold fire_if_due ts p) i = doc p i"
  by (induction ts arbitrary: p) (simp_all add: fire_if_due_doc_frame)

lemma tick_proj [simp]:
  "clock (tick p) = clock p + 1"
  "timers (tick p) = map (rearm (clock p + 1)) (timers p)"
  "draws (tick p) = draws p"
  "rounding (tick p) = rounding p"
  "click_listeners (tick p) = click_listeners p"
  by (simp_all add: tick_def Let_def)

lemma tick_polls:
  "polls (tick p)
     = polls p + length (filter (\<lambda>t. due t \<le> clock p + 1 \<and> callback t \<noteq> DashboardSim) (timers p))"
  by (simp add: tick_def Let_def polls_def fold_fire_polls [unfolded polls_def])

lemma tick_inflight: "\<exists>xs. inflight (tick p) = inflight p @ xs"
  using fold_fire_inflight [of "timers p" "p\<lparr>clock := clock p + 1\<rparr>"]
  by (simp add: tick_def Let_def)

lemma tick_doc_frame:
  "i \<noteq> ''hr'' \<Longrightarrow> i \<noteq> ''temp'' \<Longrightarrow> i \<noteq> ''alerts'' \<Longrightarrow> doc (tick p) i = doc p i"
  by (simp add: tick_def Let_def fold_fire_doc_frame)

lemma ticks_proj [simp]:
  "clock ((tick ^^ n) p) = clock p + n"
  "draws ((tick ^^ n) p) = draws p"
  "rounding ((tick ^^ n) p) = rounding p"
  "click_listeners ((tick ^^ n) p) = click_listeners p"
  by (induction n; simp)+

lemma ticks_inflight: "\<exists>xs. inflight ((tick ^^ n) p) = inflight p @ xs"
proof (induction n)
  case 0
  then show ?case by simp
next
  case (Suc n)
  then obtain xs where "inflight ((tick ^^ n) p) = inflight p @ xs" by blast
  moreover obtain ys where "inflight (tick ((tick ^^ n) p)) = inflight ((tick ^^ n) p) @ ys"
    using tick_inflight by blast
  ultimately show ?case by simp
qed

lemma ticks_doc_frame:
  "i \<noteq> ''hr'' \<Longrightarrow> i \<noteq> ''temp'' \<Longrightarrow> i \<noteq> ''alerts'' \<Longrightarrow> doc ((tick ^^ n) p) i = doc p i"
  by (induction n) (simp_all add: tick_doc_frame)

lemma callback_rearm [simp]: "callback (rearm c t) = callback t"
  by (simp add: rearm_def)

lemma filter_rearm:
  "filter (\<lambda>t. callback t \<noteq> DashboardSim) (map (rearm c) ts)
     = map (rearm c) (filter (\<lambda>t. callback t \<noteq> DashboardSim) ts)"
  by (induction ts) simp_all

lemma filter_due_nonsim:
  "filter (\<lambda>t. due t \<le> c \<and> callback t \<noteq> DashboardSim) ts
     = filter (\<lambda>t. due t \<le> c) (filter (\<lambda>t. callback t \<noteq> DashboardSim) ts)"
  by (induction ts) simp_all

lemma div_step: "(x + 1) div 5000 = (if x mod 5000 = 4999 then x div 5000 + 1 else x div (5000::nat))"
  using div_Suc [of x 5000] mod_Suc [of x 5000] by (simp split: if_splits)

lemma poller_inv_tick:
  assumes "poller_inv c0 n0 els q"
  shows "poller_inv c0 n0 els (tick q)"
proof -
  define x where "x = clock q - c0"
  define k where "k = x div 5000"
  define r where "r = x mod 5000"
  from assms have c: "c0 \<le> clock q"
    and f: "filter (\<lambda>t. callback t \<noteq> DashboardSim) (timers q)
       = [\<lparr>due = c0 + 5000 * (k + 1), period = 5000, callback = RefreshData els\<rparr>]"
    and n: "polls q = n0 + 1 + k"
    by (simp_all add: poller_inv_def x_def k_def)
  have cx: "clock q = c0 + x" using c by (simp add: x_def)
  have x1: "Suc (clock q) - c0 = Suc x" using c by (simp add: x_def)
  have m: "x = 5000 * k + r" and lt: "r < 5000" by (simp_all add: k_def r_def)
  have d1: "Suc x div 5000 = (if r = 4999 then k + 1 else k)"
    using div_step [of x] by (simp add: k_def r_def)
  show ?thesis
  proof (cases "r = 4999")
    case True
    then have due: "c0 + 5000 * (k + 1) \<le> clock q + 1"
      using m cx by simp
    show ?thesis
      unfolding poller_inv_def
      using True due c n
      by (simp add: filter_rearm f tick_polls filter_due_nonsim x1 d1 rearm_def)
  next
    case False
    then have due: "\<not> c0 + 5000 * (k + 1) \<le> clock q + 1"
      using m cx lt by simp
    show ?thesis
      unfolding poller_inv_def
      using False due c n
      by (simp add: filter_rearm f tick_polls filter_due_nonsim x1 d1 rearm_def)
  qed
qed

lemma poller_inv_ticks: "poller_inv c0 n0 els q \<Longrightarrow> poller_inv c0 n0 els ((tick ^^ n) q)"
  by (induction n) (simp_all add: poller_inv_tick)

lemma finish_proj [simp]:
  "clock (finish res p) = clock p"
  "timers (finish res p) = timers p"
  "draws (finish res p) = draws p"
  "rounding (finish res p) = rounding p"
  "click_listeners (finish res p) = click_listeners p"
  "sent (finish res p) = sent p"
  "inflight (finish res p) = inflight p"
  "polls (finish res p) = polls p"
  "doc (finish res p) = snd res"
  by (cases "fst res"; simp add: finish_def polls_def)+

lemma settle_proj [simp]:
  "clock (settle ns i r p) = clock p"
  "timers (settle ns i r p) = timers p"
  "draws (settle ns i r p) = draws p"
  "rounding (settle ns i r p) = rounding p"
  "click_listeners (settle ns i r p) = click_listeners p"
  "sent (settle ns i r p) = sent p"
  "polls (settle ns i r p) = polls p"
  by (cases "inflight p ! i"; simp add: settle_def Let_def polls_def)+

lemma url_distinct: "run_ai_url \<noteq> get_data_url"
  by (simp add: run_ai_url_def get_data_url_def)

lemma click_listener_proj [simp]:
  "clock (click_listener els p) = clock p"
  "timers (click_listener els p) = timers p"
  "draws (click_listener els p) = draws p"
  "rounding (click_listener els p) = rounding p"
  "click_listeners (click_listener els p) = click_listeners p"
  "polls (click_listener els p) = polls p"
  by (cases "runAI_click_sync els (doc p)"; simp add: click_listener_def polls_def url_distinct)+

lemma fold_click_proj [simp]:
  "clock (fold click_listener ls p) = clock p"
  "timers (fold click_listener ls p) = timers p"
  "draws (fold click_listener ls p) = draws p"
  "rounding (fold click_listener ls p) = rounding p"
  "click_listeners (fold click_listener ls p) = click_listeners p"
  "polls (fold click_listener ls p) = polls p"
  by (induction ls arbitrary: p; simp)+

lemma click_proj [simp]:
  "clock (click p) = clock p"
  "timers (click p) = timers p"
  "draws (click p) = draws p"
  "rounding (click p) = rounding p"
  "click_listeners (click p) = click_listeners p"
  "polls (click p) = polls p"
  by (simp_all add: click_def)

lemma poller_inv_cong:
  "poller_inv c0 n0 els q \<Longrightarrow> timers q' = timers q \<Longrightarrow> polls q' = polls q \<Longrightarrow> clock q' = clock q
     \<Longrightarrow> poller_inv c0 n0 els q'"
  by (simp add: poller_inv_def)

lemma poller_inv_step: "poller_inv c0 n0 els q \<Longrightarrow> poller_inv c0 n0 els (step ns e q)"
  by (cases e) (auto intro: poller_inv_ticks poller_inv_cong)

lemma poller_inv_run: "poller_inv c0 n0 els q \<Longrightarrow> poller_inv c0 n0 els (run ns evs q)"
  unfolding run_def by (induction evs arbitrary: q) (simp_all add: poller_inv_step)

lemma run_clock: "clock (run ns evs q) = clock q + elapsed evs"
  unfolding run_def
proof (induction evs arbitrary: q)
  case Nil
  then show ?case by simp
next
  case (Cons e evs)
  then show ?case by (cases e) simp_all
qed

lemma main_onload_proj:
  "clock (main_onload p) = clock p"
  "sent (main_onload p) = sent p @ [get_data_url]"
  "timers (main_onload p)
     = timers p @ [\<lparr>due = clock p + 5000, period = 5000, callback = RefreshData (lookup_elements (doc p))\<rparr>]"
  "polls (main_onload p) = polls p + 1"
  "draws (main_onload p) = draws p"
  "rounding (main_onload p) = rounding p"
  "doc (main_onload p) = doc p"
  by (simp_all add: main_onload_def Let_def setInterval_def polls_def refreshData_call_def)

lemma main_onload_inv:
  assumes "\<forall>t \<in> set (timers p). callback t = DashboardSim"
  shows "poller_inv (clock p) (polls p) (lookup_elements (doc p)) (main_onload p)"
proof -
  have "filter (\<lambda>t. callback t \<noteq> DashboardSim) (timers p) = []"
    using assms by (simp add: filter_empty_conv)
  then show ?thesis
    by (simp add: poller_inv_def main_onload_proj)
qed

section \<open>Polling\<close>

text \<open>
  Claim C4, on the clock of the page. Loading \<^verbatim>\<open>src/main.js\<close> on a page whose timers are
  all the dashboard's sends one poll at once, without the clock moving, and sets a timer
  of period 5000 ms. After any events (time passing, requests settling in any way,
  failures included, and clicks) the polls sent since the load are one more than the
  whole number of periods elapsed; so at least \<open>T div 5000\<close> polls are sent in \<open>T\<close> ms.
\<close>

theorem polling_never_stops:
  assumes "\<forall>t \<in> set (timers p). callback t = DashboardSim"
  shows "sent (main_onload p) = sent p @ [get_data_url]
       \<and> clock (main_onload p) = clock p
       \<and> timers (main_onload p)
           = timers p @ [\<lparr>due = clock p + 5000, period = 5000,
                          callback = RefreshData (lookup_elements (doc p))\<rparr>]
       \<and> polls (run ns evs (main_onload p)) = polls p + 1 + elapsed evs div 5000
       \<and> elapsed evs div 5000 \<le> polls (run ns evs (main_onload p)) - polls p"
proof -
  have "poller_inv (clock p) (polls p) (lookup_elements (doc p)) (run ns evs (main_onload p))"
    using assms by (intro poller_inv_run main_onload_inv)
  then have "polls (run ns evs (main_onload p)) = polls p + 1 + elapsed evs div 5000"
    by (simp add: poller_inv_def run_clock main_onload_proj)
  then show ?thesis by (simp add: main_onload_proj)
qed

theorem polling_never_stops_witness:
  "sent (main_onload (fresh_page demo_document steady_draws no_rounding [])) = [get_data_url]
   \<and> polls (run int_str [Elapse 12000, Settle 0 FetchRejected, Elapse 500,
                          Settle 0 (Responded 500 NotJSON)]
             (main_onload (fresh_page demo_document steady_draws no_rounding []))) = 3"
proof -
  have h: "\<forall>t \<in> set (timers (fresh_page demo_document steady_draws no_rounding [])). callback t = DashboardSim"
    by (simp add: fresh_page_def)
  have z: "polls (fresh_page demo_document steady_draws no_rounding []) = 0"
    "sent (fresh_page demo_document steady_draws no_rounding []) = []"
    by (simp_all add: fresh_page_def polls_def)
  show ?thesis
    using polling_never_stops [OF h, where ns = int_str
        and evs = "[Elapse 12000, Settle 0 FetchRejected, Elapse 500,
                    Settle 0 (Responded 500 NotJSON)]"]
    by (simp add: z)
qed

section \<open>The busy message\<close>

lemma runAI_resume_text:
  assumes "status els = Some i"
  shows "\<exists>s. runAI_click_resume ns els r d = (Fulfilled, d(i \<mapsto> s))
           \<and> (s = cannot_connect_text \<or> (\<exists>x. s = complete_prefix @ x) \<or> (\<exists>x. s = error_prefix @ x))"
proof (cases "runAI_try ns els r d")
  case (Inl e)
  with assms show ?thesis
    by (auto simp add: runAI_click_resume_def set_textContent_def)
next
  case (Inr d')
  then have "(\<exists>x. d' = d(i \<mapsto> complete_prefix @ x)) \<or> (\<exists>x. d' = d(i \<mapsto> error_prefix @ x))"
    using assms
    by (auto simp: runAI_try_def set_textContent_def
        split: fetch_outcome.splits body.splits sum.splits if_splits)
  with Inr show ?thesis
    by (auto simp: runAI_click_resume_def)
qed

lemma outcome_not_busy:
  "s = cannot_connect_text \<or> (\<exists>x. s = complete_prefix @ x) \<or> (\<exists>x. s = error_prefix @ x)
     \<Longrightarrow> s \<noteq> busy_text"
  by (auto simp add: text_defs)

lemma click_segments:
  assumes "d0 ''aiStatus'' \<noteq> None" and "click_listeners q = [lookup_elements d0]"
  shows "doc (click q) ''aiStatus'' = Some busy_text
       \<and> sent (click q) = sent q @ [run_ai_url]
       \<and> inflight (click q) = inflight q @ [RunAI (lookup_elements d0)]
       \<and> doc ((tick ^^ n) (click q)) ''aiStatus'' = Some busy_text
       \<and> (\<exists>s. doc (settle ns (length (inflight q)) r ((tick ^^ n) (click q))) ''aiStatus'' = Some s
              \<and> s \<noteq> busy_text
              \<and> (s = cannot_connect_text \<or> (\<exists>x. s = complete_prefix @ x) \<or> (\<exists>x. s = error_prefix @ x)))"
proof -
  let ?els = "lookup_elements d0"
  have st: "status ?els = Some ''aiStatus''"
    using assms(1) by (simp add: lookup_elements_def getElementById_present)
  have c: "click q = q\<lparr>doc := (doc q)(''aiStatus'' \<mapsto> busy_text), sent := sent q @ [run_ai_url],
                        inflight := inflight q @ [RunAI ?els]\<rparr>"
    using assms(2) st
    by (simp add: click_def click_listener_def runAI_click_sync_def set_textContent_def)
  have busy: "doc ((tick ^^ n) (click q)) ''aiStatus'' = Some busy_text"
    by (simp add: ticks_doc_frame c)
  obtain xs where xs: "inflight ((tick ^^ n) (click q)) = inflight q @ RunAI ?els # xs"
    using ticks_inflight [of n "click q"] by (auto simp: c)
  obtain s where s: "runAI_click_resume ns ?els r (doc ((tick ^^ n) (click q)))
        = (Fulfilled, (doc ((tick ^^ n) (click q)))(''aiStatus'' \<mapsto> s))"
      "s = cannot_connect_text \<or> (\<exists>x. s = complete_prefix @ x) \<or> (\<exists>x. s = error_prefix @ x)"
    using runAI_resume_text [OF st] by blast
  have "doc (settle ns (length (inflight q)) r ((tick ^^ n) (click q))) ''aiStatus'' = Some s"
    by (simp add: settle_def Let_def xs s)
  moreover have "s \<noteq> busy_text"
    using s(2) by (rule outcome_not_busy)
  ultimately show ?thesis
    using busy s(2) by (simp add: c)
qed

lemma step_click_listeners [simp]: "click_listeners (step ns e q) = click_listeners q"
  by (cases e) simp_all

lemma run_click_listeners [simp]: "click_listeners (run ns evs q) = click_listeners q"
  unfolding run_def by (induction evs arbitrary: q) simp_all

lemma main_onload_listener:
  "doc p ''runAI'' \<noteq> None \<Longrightarrow>
     click_listeners (main_onload p) = click_listeners p @ [lookup_elements (doc p)]"
  by (simp add: main_onload_def Let_def setInterval_def refreshData_call_def
      lookup_elements_def getElementById_present)

text \<open>
  Claim C7. Take a page that has the button \<^verbatim>\<open>runAI\<close> and the element \<^verbatim>\<open>aiStatus\<close>, load
  \<^verbatim>\<open>src/main.js\<close> on it and let any events happen. A click then writes the busy message
  and sends the request in the same segment, before the request can settle. The message
  stays while time passes with the request in flight. When the request settles, after
  any \<open>n\<close> ms and in any way, the status text is replaced by one of the three outcome
  messages, none of which is the busy message.
\<close>

theorem busy_before_outcome:
  assumes "doc p ''runAI'' \<noteq> None" and "doc p ''aiStatus'' \<noteq> None"
    and "click_listeners p = []"
    and "q = run ns evs (main_onload p)"
  shows "doc (click q) ''aiStatus'' = Some busy_text
       \<and> sent (click q) = sent q @ [run_ai_url]
       \<and> inflight (click q) = inflight q @ [RunAI (lookup_elements (doc p))]
       \<and> doc ((tick ^^ n) (click q)) ''aiStatus'' = Some busy_text
       \<and> (\<exists>s. doc (settle ns (length (inflight q)) r ((tick ^^ n) (click q))) ''aiStatus''
                = Some s
              \<and> s \<noteq> busy_text
              \<and> (s = cannot_connect_text \<or> (\<exists>x. s = complete_prefix @ x)
                   \<or> (\<exists>x. s = error_prefix @ x)))"
proof -
  have "click_listeners q = [lookup_elements (doc p)]"
    using assms(1,3,4) by (simp add: main_onload_listener)
  with assms(2) show ?thesis by (rule click_segments)
qed

theorem busy_before_outcome_witness:
  "demo_document ''runAI'' \<noteq> None \<and> demo_document ''aiStatus'' \<noteq> None
   \<and> doc (click (run int_str [Settle 0 FetchRejected]
                   (main_onload (fresh_page demo_document steady_draws no_rounding [])))) ''aiStatus''
       = Some busy_text
   \<and> sent (click (run int_str [Settle 0 FetchRejected]
                    (main_onload (fresh_page demo_document steady_draws no_rounding []))))
       = [get_data_url, run_ai_url]
   \<and> doc ((tick ^^ 250) (click (run int_str [Settle 0 FetchRejected]
                   (main_onload (fresh_page demo_document steady_draws no_rounding []))))) ''aiStatus''
       = Some busy_text
   \<and> (\<exists>s. doc (settle int_str 0 (Responded 200 NotJSON)
                ((tick ^^ 250) (click (run int_str [Settle 0 FetchRejected]
                   (main_onload (fresh_page demo_document steady_draws no_rounding []))))))
             ''aiStatus'' = Some s \<and> s \<noteq> busy_text)"
proof -
  let ?p = "fresh_page demo_document steady_draws no_rounding []"
  let ?q = "run int_str [Settle 0 FetchRejected] (main_onload ?p)"
  have p: "doc ?p ''runAI'' \<noteq> None" "doc ?p ''aiStatus'' \<noteq> None" "click_listeners ?p = []"
    by (simp_all add: fresh_page_def demo_document_def)
  have d: "demo_document ''runAI'' \<noteq> None \<and> demo_document ''aiStatus'' \<noteq> None"
    by (simp add: demo_document_def)
  have i: "inflight ?q = []" "sent ?q = [get_data_url]"
    by (simp_all add: run_def settle_def main_onload_def fresh_page_def Let_def setInterval_def
        refreshData_call_def)
  show ?thesis
    using d busy_before_outcome [OF p refl, where ns = int_str
        and evs = "[Settle 0 FetchRejected]" and n = 250 and r = "Responded 200 NotJSON"]
    by (auto simp add: i)
qed

section \<open>Two writers of the element \<^verbatim>\<open>temp\<close>\<close>

lemma sim_temp_cong:
  "sim_temp q \<Longrightarrow> doc q' ''temp'' = doc q ''temp'' \<Longrightarrow> draws q' = draws q
     \<Longrightarrow> rounding q' = rounding q \<Longrightarrow> sim_temp q'"
  by (simp add: sim_temp_def)

lemma sim_temp_dashboard: "sim_temp (dashboard_sim q)"
  unfolding sim_temp_def by (rule exI [of _ "drawn q + 1"]) (simp add: dashboard_sim_doc)

lemma sim_temp_fire: "sim_temp q \<Longrightarrow> sim_temp (fire_if_due t q)"
  by (cases "callback t")
    (auto simp: fire_if_due_def sim_temp_dashboard intro: sim_temp_cong)

lemma sim_temp_fold: "sim_temp q \<Longrightarrow> sim_temp (fold fire_if_due ts q)"
  by (induction ts arbitrary: q) (simp_all add: sim_temp_fire)

lemma sim_fires_fold:
  "\<exists>t \<in> set ts. callback t = DashboardSim \<and> due t \<le> clock q \<Longrightarrow> sim_temp (fold fire_if_due ts q)"
proof (induction ts arbitrary: q)
  case Nil
  then show ?case by simp
next
  case (Cons t ts)
  show ?case
  proof (cases "callback t = DashboardSim \<and> due t \<le> clock q")
    case True
    then have "sim_temp (fire_if_due t q)"
      by (simp add: fire_if_due_def sim_temp_dashboard)
    then show ?thesis by (simp add: sim_temp_fold)
  next
    case False
    with Cons.prems have "\<exists>t \<in> set ts. callback t = DashboardSim \<and> due t \<le> clock (fire_if_due t q)"
      by auto
    then show ?thesis using Cons.IH by simp
  qed
qed

lemma sim_temp_tick: "sim_temp q \<Longrightarrow> sim_temp (tick q)"
proof -
  assume "sim_temp q"
  then have "sim_temp (q\<lparr>clock := clock q + 1\<rparr>)"
    by (rule sim_temp_cong) simp_all
  then have "sim_temp (fold fire_if_due (timers q) (q\<lparr>clock := clock q + 1\<rparr>))"
    by (rule sim_temp_fold)
  then show ?thesis
    by (rule sim_temp_cong) (simp_all add: tick_def Let_def)
qed

lemma sim_temp_ticks: "sim_temp q \<Longrightarrow> sim_temp ((tick ^^ n) q)"
  by (induction n) (simp_all add: sim_temp_tick)

lemma sim_fires_tick:
  assumes "t \<in> set (timers q)" and "callback t = DashboardSim" and "due t \<le> clock q + 1"
  shows "sim_temp (tick q)"
proof -
  have "\<exists>t \<in> set (timers q). callback t = DashboardSim \<and> due t \<le> clock (q\<lparr>clock := clock q + 1\<rparr>)"
    using assms by auto
  then have "sim_temp (fold fire_if_due (timers q) (q\<lparr>clock := clock q + 1\<rparr>))"
    by (rule sim_fires_fold)
  then show ?thesis
    by (rule sim_temp_cong) (simp_all add: tick_def Let_def)
qed

lemma sim_armed_overwrites: "sim_armed n q \<Longrightarrow> sim_temp ((tick ^^ n) q)"
proof (induction n arbitrary: q)
  case 0
  then show ?case by (auto simp: sim_armed_def)
next
  case (Suc n)
  then obtain t where t: "t \<in> set (timers q)" "callback t = DashboardSim" "period t = 1800"
    "clock q < due t" "due t \<le> clock q + Suc n"
    by (auto simp: sim_armed_def)
  have swap: "(tick ^^ Suc n) q = (tick ^^ n) (tick q)"
    by (simp add: funpow_swap1)
  show ?case
  proof (cases "due t \<le> clock q + 1")
    case True
    with t have "sim_temp (tick q)" by (intro sim_fires_tick [of t])
    then show ?thesis unfolding swap by (rule sim_temp_ticks)
  next
    case False
    then have "rearm (clock q + 1) t = t" by (simp add: rearm_def)
    with t(1) have "t \<in> set (timers (tick q))"
      by (force simp: image_iff)
    with t False have "sim_armed n (tick q)"
      by (auto simp: sim_armed_def)
    then show ?thesis unfolding swap by (rule Suc.IH)
  qed
qed

lemma sim_armed_tick: "sim_armed 1800 q \<Longrightarrow> sim_armed 1800 (tick q)"
proof -
  assume "sim_armed 1800 q"
  then obtain t where t: "t \<in> set (timers q)" "callback t = DashboardSim" "period t = 1800"
    "clock q < due t" "due t \<le> clock q + 1800"
    by (auto simp: sim_armed_def)
  let ?t = "rearm (clock q + 1) t"
  have "?t \<in> set (timers (tick q))" using t(1) by simp
  moreover have "callback ?t = DashboardSim" "period ?t = 1800"
    "clock (tick q) < due ?t" "due ?t \<le> clock (tick q) + 1800"
    using t by (auto simp: rearm_def)
  ultimately show ?thesis unfolding sim_armed_def by blast
qed

lemma sim_armed_cong:
  "sim_armed n q \<Longrightarrow> set (timers q) \<subseteq> set (timers q') \<Longrightarrow> clock q' = clock q \<Longrightarrow> sim_armed n q'"
  by (auto simp: sim_armed_def)

lemma sim_armed_step: "sim_armed 1800 q \<Longrightarrow> sim_armed 1800 (step ns e q)"
proof (cases e)
  case (Elapse n)
  assume "sim_armed 1800 q"
  then have "sim_armed 1800 ((tick ^^ n) q)"
    by (induction n) (simp_all add: sim_armed_tick)
  with Elapse show ?thesis by simp
qed (auto intro: sim_armed_cong)

lemma sim_armed_run: "sim_armed 1800 q \<Longrightarrow> sim_armed 1800 (run ns evs q)"
  unfolding run_def by (induction evs arbitrary: q) (simp_all add: sim_armed_step)

lemma step_draws [simp]: "draws (step ns e q) = draws q" "rounding (step ns e q) = rounding q"
  by (cases e; simp)+

lemma run_draws [simp]: "draws (run ns evs q) = draws q" "rounding (run ns evs q) = rounding q"
  unfolding run_def by (induction evs arbitrary: q; simp)+

lemma sup_script_armed:
  assumes "doc p ''hr'' \<noteq> None" "doc p ''temp'' \<noteq> None" "doc p ''alerts'' \<noteq> None"
  shows "sim_armed 1800 (sup_script p)"
  using assms
  by (simp add: sup_script_def Let_def getElementById_present setInterval_def sim_armed_def)

lemma sup_script_proj [simp]:
  "doc (sup_script p) = doc p" "draws (sup_script p) = draws p"
  "rounding (sup_script p) = rounding p" "clock (sup_script p) = clock p"
  by (simp_all add: sup_script_def Let_def setInterval_def)

lemma sim_armed_mono: "sim_armed m q \<Longrightarrow> m \<le> n \<Longrightarrow> sim_armed n q"
  by (auto simp: sim_armed_def)

lemma timers_sup_script:
  "doc p ''hr'' \<noteq> None \<Longrightarrow> doc p ''temp'' \<noteq> None \<Longrightarrow> doc p ''alerts'' \<noteq> None \<Longrightarrow>
     timers (sup_script p)
       = timers p @ [\<lparr>due = clock p + 1800, period = 1800, callback = DashboardSim\<rparr>]"
  by (simp add: sup_script_def Let_def getElementById_present setInterval_def)

lemma ticks_quiet:
  "\<forall>t \<in> set (timers p). clock p + n < due t \<Longrightarrow> (tick ^^ n) p = p\<lparr>clock := clock p + n\<rparr>"
proof (induction n)
  case 0
  then show ?case by simp
next
  case (Suc n)
  have w: "Suc (clock p + n) < due t" if "t \<in> set (timers p)" for t
    using Suc.prems [rule_format, OF that] by simp
  have "\<forall>t \<in> set (timers p). clock p + n < due t"
    using w by (auto dest: Suc_lessD)
  then have ih: "(tick ^^ n) p = p\<lparr>clock := clock p + n\<rparr>" by (rule Suc.IH)
  have nd: "\<forall>t \<in> set (timers p). \<not> due t \<le> Suc (clock p + n)"
    using w by (auto simp: not_le)
  have "fold fire_if_due ts (p\<lparr>clock := Suc (clock p + n)\<rparr>) = p\<lparr>clock := Suc (clock p + n)\<rparr>"
    if "set ts \<subseteq> set (timers p)" for ts
    using that nd by (induction ts) (auto simp: fire_if_due_def)
  moreover have "map (rearm (Suc (clock p + n))) (timers p) = timers p"
    using nd by (simp add: map_idI rearm_def)
  ultimately have "tick (p\<lparr>clock := clock p + n\<rparr>) = p\<lparr>clock := Suc (clock p + n)\<rparr>"
    by (simp add: tick_def Let_def)
  moreover have "(tick ^^ Suc n) p = tick (p\<lparr>clock := clock p + n\<rparr>)"
    by (simp add: ih)
  ultimately show ?case by simp
qed

lemma ticks_until_due:
  "\<forall>t \<in> set (timers p). clock p + n < due t \<Longrightarrow> (tick ^^ Suc n) p = tick (p\<lparr>clock := clock p + n\<rparr>)"
  by (simp add: ticks_quiet)

lemma demo_guard:
  "getElementById demo_document ''hr'' = Some ''hr''"
  "getElementById demo_document ''temp'' = Some ''temp''"
  "getElementById demo_document ''alerts'' = Some ''alerts''"
  by (simp_all add: getElementById_def demo_document_def)

lemma toFixed1_34: "toFixed1 34 = ''34.0''"
  by (simp add: toFixed1_def Let_def dec_eval)

text \<open>
  Claim C8, as amended. On a page that has \<^verbatim>\<open>hr\<close>, \<^verbatim>\<open>temp\<close> and \<^verbatim>\<open>alerts\<close>, the
  element \<^verbatim>\<open>temp\<close> has two writers. The dashboard script sets a timer of period 1800 ms
  whose callback writes into \<^verbatim>\<open>temp\<close>, with one digit after the point, the double that
  \<^verbatim>\<open>33 + Math.random() * 2\<close> computes from a draw \<open>r\<close>. For \<open>r\<close> in \<open>[0, 1)\<close> that double lies
  between 33 and 35, both ends included, whenever the rounding to doubles is monotone
  and leaves 0, 2, 33 and 35 as they are. The poller, when \<^verbatim>\<open>liveData\<close> exists too, writes
  the temperature of a reading. With both scripts loaded, in either order, and after any
  events (polls rendered included), once 1800 ms or more pass with no further event the
  element \<^verbatim>\<open>temp\<close> shows a value of the dashboard.
\<close>

theorem sim_overwrites_polled_temp:
  assumes "doc p ''hr'' \<noteq> None" and "doc p ''temp'' \<noteq> None" and "doc p ''alerts'' \<noteq> None"
    and "1800 \<le> n"
  shows "timers (sup_script p)
           = timers p @ [\<lparr>due = clock p + 1800, period = 1800, callback = DashboardSim\<rparr>]
       \<and> (doc p ''liveData'' \<noteq> None \<and> map_of kvs ''temperature'' = Some (JNum t)
            \<and> map_of kvs ''gas_level'' = Some (JNum g)
            \<and> map_of kvs ''helmet_violations'' = Some (JNum h) \<longrightarrow>
          snd (refreshData_resume ns (lookup_elements (doc p))
                 (Responded code (JSON (JObj kvs))) d) ''temp''
            = Some (ns t @ celsius_suffix))
       \<and> doc (dashboard_sim q) ''temp''
           = Some (toFixed1 (rounding q (33 + rounding q (draws q (drawn q + 1) * 2)))
                     @ celsius_suffix)
       \<and> ((\<forall>x y. x \<le> y \<longrightarrow> rounding q x \<le> rounding q y)
            \<and> rounding q 0 = 0 \<and> rounding q 2 = 2 \<and> rounding q 33 = 33 \<and> rounding q 35 = 35
            \<and> 0 \<le> draws q (drawn q + 1) \<and> draws q (drawn q + 1) < 1 \<longrightarrow>
            33 \<le> rounding q (33 + rounding q (draws q (drawn q + 1) * 2))
            \<and> rounding q (33 + rounding q (draws q (drawn q + 1) * 2)) \<le> 35)
       \<and> (\<exists>j. doc ((tick ^^ n) (run ns evs (main_onload (sup_script p)))) ''temp''
               = Some (toFixed1 (rounding p (33 + rounding p (draws p j * 2)))
                         @ celsius_suffix))
       \<and> (\<exists>j. doc ((tick ^^ n) (run ns evs (sup_script (main_onload p)))) ''temp''
               = Some (toFixed1 (rounding p (33 + rounding p (draws p j * 2)))
                         @ celsius_suffix))"
proof -
  have "sim_armed 1800 (sup_script p)"
    using assms(1-3) by (rule sup_script_armed)
  then have "sim_armed 1800 (main_onload (sup_script p))"
    by (rule sim_armed_cong) (auto simp: main_onload_proj)
  then have "sim_armed n (run ns evs (main_onload (sup_script p)))"
    using assms(4) by (intro sim_armed_mono [OF sim_armed_run])
  then have a: "sim_temp ((tick ^^ n) (run ns evs (main_onload (sup_script p))))"
    by (rule sim_armed_overwrites)
  have "sim_armed 1800 (sup_script (main_onload p))"
    using assms(1-3) by (intro sup_script_armed) (simp_all add: main_onload_proj)
  then have "sim_armed n (run ns evs (sup_script (main_onload p)))"
    using assms(4) by (intro sim_armed_mono [OF sim_armed_run])
  then have b: "sim_temp ((tick ^^ n) (run ns evs (sup_script (main_onload p))))"
    by (rule sim_armed_overwrites)
  have c: "doc (dashboard_sim q) ''temp''
           = Some (toFixed1 (rounding q (33 + rounding q (draws q (drawn q + 1) * 2)))
                     @ celsius_suffix)"
    by (simp add: dashboard_sim_doc)
  have v: "33 \<le> rounding q (33 + rounding q (r * 2))
           \<and> rounding q (33 + rounding q (r * 2)) \<le> 35"
    if mono: "\<forall>x y. x \<le> y \<longrightarrow> rounding q x \<le> rounding q y"
      and same: "rounding q 0 = 0" "rounding q 2 = 2" "rounding q 33 = 33" "rounding q 35 = 35"
      and r: "0 \<le> r" "r < 1" for r
  proof -
    have "rounding q 0 \<le> rounding q (r * 2)" "rounding q (r * 2) \<le> rounding q 2"
      using mono r by simp_all
    then have "33 \<le> 33 + rounding q (r * 2)" "33 + rounding q (r * 2) \<le> 35"
      using same by simp_all
    then have "rounding q 33 \<le> rounding q (33 + rounding q (r * 2))"
      "rounding q (33 + rounding q (r * 2)) \<le> rounding q 35"
      using mono by blast+
    then show ?thesis using same by simp
  qed
  have w: "snd (refreshData_resume ns (lookup_elements (doc p))
                 (Responded code (JSON (JObj kvs))) d) ''temp''
            = Some (ns t @ celsius_suffix)"
    if "doc p ''liveData'' \<noteq> None" "map_of kvs ''temperature'' = Some (JNum t)"
      "map_of kvs ''gas_level'' = Some (JNum g)" "map_of kvs ''helmet_violations'' = Some (JNum h)"
    using that assms(2)
    by (cases "doc p ''gas''"; cases "doc p ''helmet''")
      (auto simp add: handler_defs lookup_elements_def getElementById_def)
  from a b c w v [of "draws q (drawn q + 1)"] timers_sup_script [OF assms(1-3)] show ?thesis
    by (simp add: sim_temp_def main_onload_proj)
qed

theorem sim_overwrites_polled_temp_witness:
  "demo_document ''hr'' \<noteq> None \<and> demo_document ''temp'' \<noteq> None
   \<and> demo_document ''alerts'' \<noteq> None
   \<and> doc (run int_str [Settle 0 (Responded 200 (JSON demo_reading))]
            (main_onload (sup_script (fresh_page demo_document steady_draws no_rounding [])))) ''temp''
       = Some (''36'' @ celsius_suffix)
   \<and> doc ((tick ^^ 1800) (run int_str [Settle 0 (Responded 200 (JSON demo_reading))]
            (main_onload (sup_script (fresh_page demo_document steady_draws no_rounding []))))) ''temp''
       = Some (''34.0'' @ celsius_suffix)"
proof -
  let ?p = "fresh_page demo_document steady_draws no_rounding []"
  have d: "doc ?p = demo_document" "draws ?p = steady_draws" "rounding ?p = no_rounding"
    by (simp_all add: fresh_page_def)
  have h: "doc ?p ''hr'' \<noteq> None" "doc ?p ''temp'' \<noteq> None" "doc ?p ''alerts'' \<noteq> None"
    by (simp_all add: fresh_page_def demo_document_def)
  have n: "int_str 36 = ''36''" "int_str 120 = ''120''" "int_str 2 = ''2''"
    by (simp_all add: dec_eval)
  have i: "inflight (main_onload (sup_script ?p)) = [GetData (lookup_elements demo_document)]"
    "doc (main_onload (sup_script ?p)) = demo_document"
    by (simp_all add: main_onload_def sup_script_def fresh_page_def Let_def setInterval_def
        refreshData_call_def demo_guard)
  have polled: "doc (run int_str [Settle 0 (Responded 200 (JSON demo_reading))]
            (main_onload (sup_script ?p))) ''temp'' = Some (''36'' @ celsius_suffix)"
    by (simp add: run_def settle_def Let_def i demo_lookup handler_defs demo_reading_def n)
  have s: "no_rounding (33 + no_rounding (steady_draws j * 2)) = 34" for j
    by (simp add: steady_draws_def no_rounding_def)
  show ?thesis
    using h polled
      sim_overwrites_polled_temp [OF h, where n = 1800 and ns = int_str
        and evs = "[Settle 0 (Responded 200 (JSON demo_reading))]"]
    by (simp add: d s toFixed1_34)
qed

text \<open>
  Claim C8 as stated fails: a polled temperature can still be on display when the next
  poll is sent. Both scripts load at time 0; the dashboard writes at 1800 and 3600 ms;
  the response to the first poll arrives at 4100 ms and renders 36; at 5000 ms the second
  poll has been sent and \<^verbatim>\<open>temp\<close> still shows the polled 36, the next write of the
  dashboard being due at 5400 ms.
\<close>

theorem polled_temp_survives_counterexample:
  "doc (run int_str [Elapse 4100, Settle 0 (Responded 200 (JSON demo_reading)), Elapse 900]
          (main_onload (sup_script (fresh_page demo_document steady_draws no_rounding [])))) ''temp''
     = Some (''36'' @ celsius_suffix)
   \<and> sent (run int_str [Elapse 4100, Settle 0 (Responded 200 (JSON demo_reading)), Elapse 900]
          (main_onload (sup_script (fresh_page demo_document steady_draws no_rounding []))))
     = [get_data_url, get_data_url]
   \<and> clock (run int_str [Elapse 4100, Settle 0 (Responded 200 (JSON demo_reading)), Elapse 900]
          (main_onload (sup_script (fresh_page demo_document steady_draws no_rounding [])))) = 5000"
proof -
  define E where "E = lookup_elements demo_document"
  define P0 where "P0 = main_onload (sup_script (fresh_page demo_document steady_draws no_rounding []))"
  define S1 where "S1 = (tick ^^ 1800) P0"
  define S2 where "S2 = (tick ^^ 1800) S1"
  define S3 where "S3 = (tick ^^ 500) S2"
  define S4 where "S4 = settle int_str 0 (Responded 200 (JSON demo_reading)) S3"
  define S5 where "S5 = (tick ^^ 900) S4"
  have P0: "timers P0 = [\<lparr>due = 1800, period = 1800, callback = DashboardSim\<rparr>,
                         \<lparr>due = 5000, period = 5000, callback = RefreshData E\<rparr>]"
    "clock P0 = 0" "inflight P0 = [GetData E]" "sent P0 = [get_data_url]"
    by (simp_all add: P0_def E_def main_onload_def sup_script_def fresh_page_def Let_def
        setInterval_def refreshData_call_def demo_guard)
  have "S1 = tick (P0\<lparr>clock := clock P0 + 1799\<rparr>)"
    unfolding S1_def using ticks_until_due [of P0 1799] by (simp add: P0)
  then have S1: "timers S1 = [\<lparr>due = 3600, period = 1800, callback = DashboardSim\<rparr>,
                              \<lparr>due = 5000, period = 5000, callback = RefreshData E\<rparr>]"
    "clock S1 = 1800" "inflight S1 = [GetData E]" "sent S1 = [get_data_url]"
    by (simp_all add: tick_def Let_def fire_if_due_def rearm_def P0)
  have "S2 = tick (S1\<lparr>clock := clock S1 + 1799\<rparr>)"
    unfolding S2_def using ticks_until_due [of S1 1799] by (simp add: S1)
  then have S2: "timers S2 = [\<lparr>due = 5400, period = 1800, callback = DashboardSim\<rparr>,
                              \<lparr>due = 5000, period = 5000, callback = RefreshData E\<rparr>]"
    "clock S2 = 3600" "inflight S2 = [GetData E]" "sent S2 = [get_data_url]"
    by (simp_all add: tick_def Let_def fire_if_due_def rearm_def S1)
  have "S3 = S2\<lparr>clock := clock S2 + 500\<rparr>"
    unfolding S3_def by (rule ticks_quiet) (simp add: S2)
  then have S3: "timers S3 = timers S2" "clock S3 = 4100" "inflight S3 = [GetData E]"
    "sent S3 = [get_data_url]"
    by (simp_all add: S2)
  have n: "int_str 36 = ''36''" "int_str 120 = ''120''" "int_str 2 = ''2''"
    by (simp_all add: dec_eval)
  have S4: "timers S4 = timers S2" "clock S4 = 4100" "sent S4 = [get_data_url]"
    "doc S4 ''temp'' = Some (''36'' @ celsius_suffix)"
    by (simp_all add: S4_def S3 settle_def Let_def E_def demo_lookup handler_defs
        demo_reading_def n)
  have "S5 = tick (S4\<lparr>clock := clock S4 + 899\<rparr>)"
    unfolding S5_def using ticks_until_due [of S4 899] by (simp add: S4 S2)
  then have S5: "clock S5 = 5000" "sent S5 = [get_data_url, get_data_url]"
    "doc S5 ''temp'' = Some (''36'' @ celsius_suffix)"
    by (simp_all add: tick_def Let_def fire_if_due_def S4 S2)
  have split: "(tick ^^ 4100) P0 = S3"
  proof -
    have "(4100::nat) = 500 + (1800 + 1800)" by simp
    then have "(tick ^^ 4100) P0 = (tick ^^ 500) ((tick ^^ 1800) ((tick ^^ 1800) P0))"
      by (simp only: funpow_add o_apply)
    then show ?thesis by (simp add: S3_def S2_def S1_def)
  qed
  have "run int_str [Elapse 4100, Settle 0 (Responded 200 (JSON demo_reading)), Elapse 900] P0 = S5"
    by (simp add: run_def split S5_def S4_def)
  then show ?thesis
    unfolding P0_def [symmetric] by (simp add: S5)
qed

end
